theory Spec2Isabelle
  imports Main
begin

section \<open>Python values, dictionaries and outcomes\<close>

text \<open>
  The quiz server (\<^verbatim>\<open>app.py\<close> and \<^verbatim>\<open>main.py\<close>, whose generator, cache and
  worker are the same text) handles JSON data as plain Python values. A \<open>str\<close> is
  modelled by \<open>string\<close>, one \<open>char\<close> per code point, so the texts covered are those
  whose code points are below 256. A \<open>dict\<close> with string keys is an association list
  in insertion order; a float is kept by its literal, since the program never computes
  with one.
\<close>

datatype pyval =
    PNone
  | PBool bool
  | PInt int
  | PFloat string
  | PStr string
  | PList "pyval list"
  | PDict "(string \<times> pyval) list"

type_synonym pydict = "(string \<times> pyval) list"

text \<open>
  A call either raises an exception, kept by its message \<open>str(e)\<close>, or returns a value.
\<close>

datatype 'a outcome = Raise string | Return 'a

definition dict_get :: "pydict \<Rightarrow> string \<Rightarrow> pyval \<Rightarrow> pyval" where
  \<comment> \<open>\<^verbatim>\<open>d.get(k, dflt)\<close>; \<^verbatim>\<open>d.get(k)\<close> is \<open>dict_get d k PNone\<close>\<close>
  "dict_get d k dflt = (case map_of d k of None \<Rightarrow> dflt | Some v \<Rightarrow> v)"

definition dict_has :: "pydict \<Rightarrow> string \<Rightarrow> bool" where
  \<comment> \<open>\<^verbatim>\<open>k in d\<close>\<close>
  "dict_has d k = (k \<in> set (map fst d))"

fun type_name :: "pyval \<Rightarrow> string" where
  "type_name PNone = ''NoneType''"
| "type_name (PBool _) = ''bool''"
| "type_name (PInt _) = ''int''"
| "type_name (PFloat _) = ''float''"
| "type_name (PStr _) = ''str''"
| "type_name (PList _) = ''list''"
| "type_name (PDict _) = ''dict''"

definition attribute_error :: "pyval \<Rightarrow> string \<Rightarrow> string" where
  \<comment> \<open>the message of the AttributeError raised by \<^verbatim>\<open>v.a\<close> when \<open>v\<close> has no attribute \<open>a\<close>\<close>
  "attribute_error v a =
     [CHR 0x27] @ type_name v @ [CHR 0x27] @ '' object has no attribute '' @ [CHR 0x27] @ a @ [CHR 0x27]"

section \<open>String operations\<close>

definition isspace :: "char \<Rightarrow> bool" where
  \<comment> \<open>\<^verbatim>\<open>str.isspace\<close> on the code points below 256\<close>
  "isspace c = (c \<in> set [CHR 0x09, CHR 0x0A, CHR 0x0B, CHR 0x0C, CHR 0x0D, CHR 0x1C,
                          CHR 0x1D, CHR 0x1E, CHR 0x1F, CHR 0x20, CHR 0x85, CHR 0xA0])"

definition strip :: "string \<Rightarrow> string" where
  \<comment> \<open>\<^verbatim>\<open>s.strip()\<close>\<close>
  "strip s = rev (dropWhile isspace (rev (dropWhile isspace s)))"

definition startswith :: "string \<Rightarrow> string \<Rightarrow> bool" where
  "startswith s p = (take (length p) s = p)"

definition endswith :: "string \<Rightarrow> string \<Rightarrow> bool" where
  "endswith s p = (length p \<le> length s \<and> drop (length s - length p) s = p)"

fun split_sep :: "char \<Rightarrow> string \<Rightarrow> string list" where
  \<comment> \<open>\<^verbatim>\<open>s.split(c)\<close> for a one-character separator: the empty text gives one empty piece\<close>
  "split_sep c [] = [[]]"
| "split_sep c (x # xs) =
     (if x = c then [] # split_sep c xs
      else (case split_sep c xs of [] \<Rightarrow> [[x]] | w # ws \<Rightarrow> (x # w) # ws))"

fun join_sep :: "char \<Rightarrow> string list \<Rightarrow> string" where
  \<comment> \<open>\<^verbatim>\<open>c.join(ws)\<close>, the inverse of \<^verbatim>\<open>split\<close>, used to state what splitting does\<close>
  "join_sep c [] = []"
| "join_sep c [w] = w"
| "join_sep c (w # v # ws) = w @ c # join_sep c (v # ws)"

fun contains :: "string \<Rightarrow> string \<Rightarrow> bool" where
  \<comment> \<open>\<^verbatim>\<open>sub in s\<close> on two texts\<close>
  "contains sub [] = (sub = [])"
| "contains sub (x # xs) = (startswith (x # xs) sub \<or> contains sub xs)"

section \<open>The question generator\<close>

definition clean_text :: "string \<Rightarrow> string" where
  \<comment> \<open>the first lines of the \<^verbatim>\<open>try\<close> block of \<^verbatim>\<open>generar_pregunta\<close>: strip, then
      drop a leading \<^verbatim>\<open>```json\<close>, a leading \<^verbatim>\<open>```\<close> and a trailing \<^verbatim>\<open>```\<close>, each tested
      in turn on the text left by the tests before it\<close>
  "clean_text raw =
     (let text = strip raw;
          text = (if startswith text ''```json'' then drop 7 text else text);
          text = (if startswith text ''```'' then drop 3 text else text);
          text = (if endswith text ''```'' then take (length text - 3) text else text)
      in text)"

definition normalizar_respuestas :: "pyval \<Rightarrow> pyval" where
  \<comment> \<open>the \<^verbatim>\<open>isinstance\<close> chain on \<^verbatim>\<open>respuestas\<close>\<close>
  "normalizar_respuestas r =
     (case r of
        PStr s \<Rightarrow> PList (map (\<lambda>x. PStr (strip x)) (split_sep CHR '','' s))
      | PList xs \<Rightarrow> PList xs
      | _ \<Rightarrow> PList [])"

definition construir_pregunta :: "pyval \<Rightarrow> pydict outcome" where
  \<comment> \<open>what follows \<^verbatim>\<open>json.loads\<close> in the \<^verbatim>\<open>try\<close> block; \<^verbatim>\<open>.get\<close> exists on a dict only\<close>
  "construir_pregunta pregunta_json =
     (case pregunta_json of
        PDict kv \<Rightarrow>
          (let respuestas = normalizar_respuestas (dict_get kv ''Respuestas'' PNone)
           in Return [(''pregunta'', dict_get kv ''Pregunta'' PNone),
                      (''codigo'', dict_get kv ''Codigo'' PNone),
                      (''respuestas'', respuestas),
                      (''respuesta_correcta'', dict_get kv ''Respuesta correcta'' PNone),
                      (''explicacion'', dict_get kv ''Explicacion'' (PStr ''''))])
      | v \<Rightarrow> Raise (attribute_error v ''get''))"

abbreviation built :: "pydict \<Rightarrow> bool" where
  \<comment> \<open>a question record: the dict built from some JSON object\<close>
  "built d \<equiv> (\<exists>kv. construir_pregunta (PDict kv) = Return d)"

definition try_generar :: "(string \<Rightarrow> pyval outcome) \<Rightarrow> string option \<Rightarrow> pydict outcome" where
  \<comment> \<open>the \<^verbatim>\<open>try\<close> block: \<open>loads\<close> is \<^verbatim>\<open>json.loads\<close>, \<open>txt\<close> is \<^verbatim>\<open>response.text\<close>,
      a \<open>str\<close> or \<open>None\<close>\<close>
  "try_generar loads txt =
     (case txt of
        None \<Rightarrow> Raise (attribute_error PNone ''strip'')
      | Some raw \<Rightarrow>
          (case loads (clean_text raw) of
             Raise e \<Rightarrow> Raise e
           | Return pregunta_json \<Rightarrow> construir_pregunta pregunta_json))"

definition texto_of :: "string option \<Rightarrow> pyval" where
  "texto_of txt = (case txt of None \<Rightarrow> PNone | Some raw \<Rightarrow> PStr raw)"

definition generar_pregunta ::
  "(string \<Rightarrow> pyval outcome) \<Rightarrow> string option outcome \<Rightarrow> pydict outcome" where
  \<comment> \<open>\<open>cli\<close> is what \<^verbatim>\<open>client.models.generate_content\<close> does: the call stands before
      the \<^verbatim>\<open>try\<close>, so what it raises leaves the function\<close>
  "generar_pregunta loads cli =
     (case cli of
        Raise e \<Rightarrow> Raise e
      | Return txt \<Rightarrow>
          (case try_generar loads txt of
             Return pregunta \<Rightarrow> Return pregunta
           | Raise e \<Rightarrow>
               Return [(''error'', PStr ''No se pudo extraer el JSON''),
                       (''detalle'', PStr e),
                       (''texto'', texto_of txt)]))"

inductive generated :: "(string \<Rightarrow> pyval outcome) \<Rightarrow> pydict \<Rightarrow> bool"
  for loads :: "string \<Rightarrow> pyval outcome" where
  \<comment> \<open>the records the generator builds from the response texts that \<open>loads\<close> decodes to
      a JSON object\<close>
  "loads (clean_text raw) = Return (PDict kv) \<Longrightarrow> construir_pregunta (PDict kv) = Return d \<Longrightarrow>
   generated loads d"

section \<open>The question cache\<close>

text \<open>
  \<^verbatim>\<open>pregunta_cache = queue.Queue(maxsize=CACHE_SIZE)\<close>: a list, oldest record first.
  The queue does each operation under its own lock, so an operation is one step.
\<close>

definition CACHE_SIZE :: nat where
  "CACHE_SIZE = 200"

definition CACHE_MIN :: nat where
  "CACHE_MIN = 100"

definition cache_put :: "pydict list \<Rightarrow> pydict \<Rightarrow> pydict list option" where
  \<comment> \<open>\<^verbatim>\<open>pregunta_cache.put(x)\<close>: on a full queue the caller waits, which is \<open>None\<close>\<close>
  "cache_put q x = (if length q < CACHE_SIZE then Some (q @ [x]) else None)"

definition cache_get :: "pydict list \<Rightarrow> (pydict \<times> pydict list) option" where
  \<comment> \<open>\<^verbatim>\<open>pregunta_cache.get(timeout=10)\<close>: \<open>None\<close> is \<^verbatim>\<open>queue.Empty\<close>, raised when the
      wait ends on an empty queue\<close>
  "cache_get q = (case q of [] \<Rightarrow> None | x # rest \<Rightarrow> Some (x, rest))"

section \<open>The refill worker\<close>

definition MARKER :: string where
  "MARKER = ''RESOURCE_EXHAUSTED''"

definition valida :: "pydict \<Rightarrow> bool" where
  \<comment> \<open>\<^verbatim>\<open>isinstance(pregunta, dict) and 'pregunta' in pregunta and 'codigo' in pregunta\<close>\<close>
  "valida pregunta = (dict_has pregunta ''pregunta'' \<and> dict_has pregunta ''codigo'')"

definition precargar_paso :: "pydict outcome \<Rightarrow> pydict list \<Rightarrow> (pydict list \<times> nat) option" where
  \<comment> \<open>one turn of the \<^verbatim>\<open>while True\<close> of \<^verbatim>\<open>precargar_preguntas\<close> with no consumer in
      between: \<open>gen\<close> is what the call \<^verbatim>\<open>generar_pregunta()\<close> does if it is made; the
      result is the queue and the seconds slept, \<open>None\<close> when \<^verbatim>\<open>put\<close> waits\<close>
  "precargar_paso gen q =
     (if length q < CACHE_MIN then
        (case gen of
           Return pregunta \<Rightarrow>
             (if valida pregunta then
                (case cache_put q pregunta of
                   None \<Rightarrow> None
                 | Some q' \<Rightarrow> Some (q', 1))
              else Some (q, 1))
         | Raise e \<Rightarrow> Some (q, if contains MARKER e then 35 else 5))
      else Some (q, 2))"

fun precargar_preguntas :: "pydict outcome list \<Rightarrow> pydict list \<Rightarrow> (pydict list \<times> nat list) option" where
  \<comment> \<open>the loop run for one turn per element of the list, which gives the outcome of the
      generation of that turn; the result lists the sleeps\<close>
  "precargar_preguntas [] q = Some (q, [])"
| "precargar_preguntas (gen # gens) q =
     (case precargar_paso gen q of
        None \<Rightarrow> None
      | Some (q', t) \<Rightarrow>
          (case precargar_preguntas gens q' of
             None \<Rightarrow> None
           | Some (q'', ts) \<Rightarrow> Some (q'', t # ts)))"

section \<open>The cache accessor\<close>

definition py_in :: "string \<Rightarrow> pyval \<Rightarrow> bool outcome" where
  \<comment> \<open>\<^verbatim>\<open>sub in v\<close> for a text \<open>sub\<close>\<close>
  "py_in sub v =
     (case v of
        PStr s \<Rightarrow> Return (contains sub s)
      | PList xs \<Rightarrow> Return (PStr sub \<in> set xs)
      | PDict kv \<Rightarrow> Return (dict_has kv sub)
      | _ \<Rightarrow> Raise (''argument of type '' @ [CHR 0x27] @ type_name v @ [CHR 0x27] @ '' is not iterable''))"

definition limite_alcanzado :: pydict where
  \<comment> \<open>the dict literal returned on a quota error\<close>
  "limite_alcanzado =
     [(''pregunta'', PStr (CHR 0xA1 # ''L'' @ CHR 0xED # ''mite de uso alcanzado!'')),
      (''codigo'', PStr []),
      (''respuestas'', PList []),
      (''respuesta_correcta'', PStr []),
      (''explicacion'', PStr (''Se ha superado el l'' @ CHR 0xED #
         ''mite de uso de la API. Por favor, espera un minuto y vuelve a intentarlo.''))]"

definition obtener_pregunta_cache ::
  "pydict outcome \<Rightarrow> pydict list \<Rightarrow> pydict outcome \<times> pydict list" where
  \<comment> \<open>\<open>gen\<close> is what the call \<^verbatim>\<open>generar_pregunta()\<close> does if it is made: it stands
      in the \<^verbatim>\<open>except\<close> branch, under no handler; the result is what the caller gets and
      the queue left\<close>
  "obtener_pregunta_cache gen q =
     (case cache_get q of
        Some (x, rest) \<Rightarrow> (Return x, rest)
      | None \<Rightarrow>
          (case gen of
             Raise e \<Rightarrow> (Raise e, q)
           | Return pregunta \<Rightarrow>
               (if dict_has pregunta ''error'' then
                  (case py_in MARKER (dict_get pregunta ''detalle'' (PStr [])) of
                     Raise e \<Rightarrow> (Raise e, q)
                   | Return b \<Rightarrow> (Return (if b then limite_alcanzado else pregunta), q))
                else (Return pregunta, q))))"

section \<open>Worker and consumers running together\<close>

text \<open>
  One worker thread and any number of request threads share the queue. The worker is at
  one of three places: before reading \<^verbatim>\<open>qsize()\<close>, before the call of the generator, or
  before \<^verbatim>\<open>put\<close> with the record it holds. A step is one of them moving on, or one
  request thread running the accessor; sleeping changes nothing.
\<close>

datatype worker = AtCheck | AtGenerate | AtPut pydict

record system =
  queue :: "pydict list"
  worker_at :: worker

inductive step :: "(string \<Rightarrow> pyval outcome) \<Rightarrow> system \<Rightarrow> system \<Rightarrow> bool"
  for loads :: "string \<Rightarrow> pyval outcome" where
  check_low:
    "worker_at s = AtCheck \<Longrightarrow> length (queue s) < CACHE_MIN \<Longrightarrow>
     step loads s (s\<lparr>worker_at := AtGenerate\<rparr>)"
| check_idle:
    "worker_at s = AtCheck \<Longrightarrow> CACHE_MIN \<le> length (queue s) \<Longrightarrow> step loads s s"
| generate_valid:
    "worker_at s = AtGenerate \<Longrightarrow> generar_pregunta loads cli = Return pregunta \<Longrightarrow>
     valida pregunta \<Longrightarrow> step loads s (s\<lparr>worker_at := AtPut pregunta\<rparr>)"
| generate_invalid:
    "worker_at s = AtGenerate \<Longrightarrow> generar_pregunta loads cli = Return pregunta \<Longrightarrow>
     \<not> valida pregunta \<Longrightarrow> step loads s (s\<lparr>worker_at := AtCheck\<rparr>)"
| generate_raise:
    "worker_at s = AtGenerate \<Longrightarrow> generar_pregunta loads cli = Raise e \<Longrightarrow>
     step loads s (s\<lparr>worker_at := AtCheck\<rparr>)"
| enqueue:
    "worker_at s = AtPut pregunta \<Longrightarrow> cache_put (queue s) pregunta = Some q' \<Longrightarrow>
     step loads s (s\<lparr>queue := q', worker_at := AtCheck\<rparr>)"
| consume:
    "obtener_pregunta_cache (generar_pregunta loads cli) (queue s) = (r, q') \<Longrightarrow>
     step loads s (s\<lparr>queue := q'\<rparr>)"

inductive reachable :: "(string \<Rightarrow> pyval outcome) \<Rightarrow> system \<Rightarrow> bool"
  for loads :: "string \<Rightarrow> pyval outcome" where
  start: "reachable loads \<lparr>queue = [], worker_at = AtCheck\<rparr>"
| next_step: "reachable loads s \<Longrightarrow> step loads s s' \<Longrightarrow> reachable loads s'"

section \<open>Sample responses\<close>

text \<open>
  \<^verbatim>\<open>json.loads\<close> belongs to the Python library, so the generator takes it as the
  parameter \<open>loads\<close> and the theorems hold for whatever it does. The examples need one
  decoder to run: \<open>json_loads_sample\<close> gives the library's result on the five texts
  below, with blanks around them ignored as the library ignores them, and answers any
  other text as the library answers \<^verbatim>\<open>hola\<close>, a text that starts no JSON value.
\<close>

definition json_ws :: "char \<Rightarrow> bool" where
  \<comment> \<open>the blanks JSON allows around a value: space, tab, line feed, carriage return\<close>
  "json_ws c = (c \<in> set [CHR 0x20, CHR 0x09, CHR 0x0A, CHR 0x0D])"

definition texto_completo :: string where
  \<open>texto_completo = ''{"Pregunta": "Que imprime print(1+1)?", "Codigo": "print(1+1)", "Respuestas": ["1", "2", "3", "4"], "Respuesta correcta": "2", "Explicacion": "1+1 es 2"}''\<close>

definition texto_respuestas_str :: string where
  \<open>texto_respuestas_str = ''{"Pregunta": "P", "Codigo": "C", "Respuestas": "A, B, C, D", "Respuesta correcta": "A"}''\<close>

definition texto_explicacion_null :: string where
  \<open>texto_explicacion_null = ''{"Pregunta": "P", "Codigo": "C", "Respuestas": 7, "Respuesta correcta": "A", "Explicacion": null}''\<close>

definition json_loads_sample :: "string \<Rightarrow> pyval outcome" where
  "json_loads_sample t =
     (let u = rev (dropWhile json_ws (rev (dropWhile json_ws t))) in
      if u = ''{}'' then Return (PDict [])
      else if u = ''[1]'' then Return (PList [PInt 1])
      else if u = texto_completo then
        Return (PDict [(''Pregunta'', PStr ''Que imprime print(1+1)?''),
                       (''Codigo'', PStr ''print(1+1)''),
                       (''Respuestas'', PList [PStr ''1'', PStr ''2'', PStr ''3'', PStr ''4'']),
                       (''Respuesta correcta'', PStr ''2''),
                       (''Explicacion'', PStr ''1+1 es 2'')])
      else if u = texto_respuestas_str then
        Return (PDict [(''Pregunta'', PStr ''P''),
                       (''Codigo'', PStr ''C''),
                       (''Respuestas'', PStr ''A, B, C, D''),
                       (''Respuesta correcta'', PStr ''A'')])
      else if u = texto_explicacion_null then
        Return (PDict [(''Pregunta'', PStr ''P''),
                       (''Codigo'', PStr ''C''),
                       (''Respuestas'', PInt 7),
                       (''Respuesta correcta'', PStr ''A''),
                       (''Explicacion'', PNone)])
      else Raise ''Expecting value: line 1 column 1 (char 0)'')"

section \<open>Facts about the generator\<close>

lemmas str_defs = strip_def isspace_def startswith_def endswith_def

lemmas sample_defs =
  json_loads_sample_def json_ws_def texto_completo_def texto_respuestas_str_def
  texto_explicacion_null_def

lemmas generar_defs =
  generar_pregunta_def try_generar_def construir_pregunta_def texto_of_def dict_get_def

lemma construir_pregunta_no_dict:
  "(\<forall>kv. v \<noteq> PDict kv) \<Longrightarrow> construir_pregunta v = Raise (attribute_error v ''get'')"
  by (cases v) (simp_all add: construir_pregunta_def)

lemma generar_pregunta_parsed:
  assumes "loads (clean_text raw) = Return (PDict kv)"
  shows "generar_pregunta loads (Return (Some raw)) =
           Return [(''pregunta'', dict_get kv ''Pregunta'' PNone),
                   (''codigo'', dict_get kv ''Codigo'' PNone),
                   (''respuestas'', normalizar_respuestas (dict_get kv ''Respuestas'' PNone)),
                   (''respuesta_correcta'', dict_get kv ''Respuesta correcta'' PNone),
                   (''explicacion'', dict_get kv ''Explicacion'' (PStr []))]"
  using assms by (simp add: generar_pregunta_def try_generar_def construir_pregunta_def)

lemma generar_pregunta_shape:
  assumes "generar_pregunta loads cli = Return d"
  shows "(\<exists>kv. construir_pregunta (PDict kv) = Return d)
         \<or> (\<exists>e t. d = [(''error'', PStr ''No se pudo extraer el JSON''),
                         (''detalle'', PStr e), (''texto'', t)])"
proof (cases cli)
  case (Raise e)
  with assms show ?thesis by (simp add: generar_pregunta_def)
next
  case (Return rt)
  note cli = this
  show ?thesis
  proof (cases "try_generar loads rt")
    case (Raise e)
    with cli assms show ?thesis by (auto simp: generar_pregunta_def)
  next
    case (Return p)
    with cli assms have dp: "d = p" by (simp add: generar_pregunta_def)
    from Return obtain raw v where "rt = Some raw" "loads (clean_text raw) = Return v"
      "construir_pregunta v = Return p"
      by (auto simp: try_generar_def split: option.splits outcome.splits)
    moreover from this have "\<exists>kv. v = PDict kv"
      using construir_pregunta_no_dict [of v] by (cases "\<exists>kv. v = PDict kv") auto
    ultimately show ?thesis using dp by auto
  qed
qed

text \<open>
  C5. Once the client has answered, \<^verbatim>\<open>generar_pregunta\<close> returns and never raises,
  whatever the text and whatever \<^verbatim>\<open>json.loads\<close> does with it. When \<^verbatim>\<open>json.loads\<close>
  raises on the cleaned text, when it gives a value that is no JSON object (so that
  \<^verbatim>\<open>.get\<close> raises), or when the response has no text, the result is the error record
  with the message of the exception as \<open>detalle\<close> and the raw response text as
  \<open>texto\<close>.
\<close>

theorem generar_pregunta_no_propagate:
  "(\<exists>d. generar_pregunta loads (Return txt) = Return d)
   \<and> (loads (clean_text raw) = Raise e \<longrightarrow>
        generar_pregunta loads (Return (Some raw)) =
          Return [(''error'', PStr ''No se pudo extraer el JSON''),
                  (''detalle'', PStr e), (''texto'', PStr raw)])
   \<and> (loads (clean_text raw) = Return v \<and> (\<forall>kv. v \<noteq> PDict kv) \<longrightarrow>
        generar_pregunta loads (Return (Some raw)) =
          Return [(''error'', PStr ''No se pudo extraer el JSON''),
                  (''detalle'', PStr (attribute_error v ''get'')), (''texto'', PStr raw)])
   \<and> generar_pregunta loads (Return None) =
          Return [(''error'', PStr ''No se pudo extraer el JSON''),
                  (''detalle'', PStr (attribute_error PNone ''strip'')), (''texto'', PNone)]"
proof (intro conjI impI)
  show "\<exists>d. generar_pregunta loads (Return txt) = Return d"
    by (simp add: generar_pregunta_def split: outcome.splits)
next
  assume "loads (clean_text raw) = Raise e"
  then show "generar_pregunta loads (Return (Some raw)) =
          Return [(''error'', PStr ''No se pudo extraer el JSON''),
                  (''detalle'', PStr e), (''texto'', PStr raw)]"
    by (simp add: generar_pregunta_def try_generar_def texto_of_def)
next
  assume "loads (clean_text raw) = Return v \<and> (\<forall>kv. v \<noteq> PDict kv)"
  then show "generar_pregunta loads (Return (Some raw)) =
          Return [(''error'', PStr ''No se pudo extraer el JSON''),
                  (''detalle'', PStr (attribute_error v ''get'')), (''texto'', PStr raw)]"
    by (simp add: generar_pregunta_def try_generar_def texto_of_def construir_pregunta_no_dict)
next
  show "generar_pregunta loads (Return None) =
          Return [(''error'', PStr ''No se pudo extraer el JSON''),
                  (''detalle'', PStr (attribute_error PNone ''strip'')), (''texto'', PNone)]"
    by (simp add: generar_pregunta_def try_generar_def texto_of_def)
qed

theorem generar_pregunta_no_propagate_witness:
  "json_loads_sample (clean_text ''hola'') = Raise ''Expecting value: line 1 column 1 (char 0)''
   \<and> generar_pregunta json_loads_sample (Return (Some ''hola'')) =
        Return [(''error'', PStr ''No se pudo extraer el JSON''),
                (''detalle'', PStr ''Expecting value: line 1 column 1 (char 0)''),
                (''texto'', PStr ''hola'')]
   \<and> json_loads_sample (clean_text ''[1]'') = Return (PList [PInt 1])
   \<and> generar_pregunta json_loads_sample (Return (Some ''[1]'')) =
        Return [(''error'', PStr ''No se pudo extraer el JSON''),
                (''detalle'', PStr (attribute_error (PList [PInt 1]) ''get'')),
                (''texto'', PStr ''[1]'')]"
proof -
  have h1: "json_loads_sample (clean_text ''hola'') =
              Raise ''Expecting value: line 1 column 1 (char 0)''"
    by (simp add: clean_text_def str_defs sample_defs)
  have h2: "json_loads_sample (clean_text ''[1]'') = Return (PList [PInt 1])"
    by (simp add: clean_text_def str_defs sample_defs)
  have h3: "\<forall>kv. PList [PInt 1] \<noteq> PDict kv" by simp
  show ?thesis
    using h1 h2 h3
      generar_pregunta_no_propagate [where loads = json_loads_sample and raw = "''hola''"
        and e = "''Expecting value: line 1 column 1 (char 0)''"]
      generar_pregunta_no_propagate [where loads = json_loads_sample and raw = "''[1]''"
        and v = "PList [PInt 1]"]
    by blast
qed

text \<open>
  C6. When \<^verbatim>\<open>json.loads\<close> gives a JSON object, the result is the question record whose
  five fields are read from the five keys. With the five keys present, the four texts
  kept as they are and \<open>Respuestas\<close> a list of four texts, the record holds exactly
  these values; a missing \<open>Pregunta\<close>, \<open>Codigo\<close> or \<open>Respuesta correcta\<close> gives
  \<open>None\<close>, a missing \<open>Respuestas\<close> the empty list and a missing \<open>Explicacion\<close> the
  empty text.
\<close>

theorem generar_pregunta_maps_fields:
  assumes "loads (clean_text raw) = Return (PDict kv)"
  shows "(map_of kv ''Pregunta'' = Some (PStr p) \<and> map_of kv ''Codigo'' = Some (PStr c)
          \<and> map_of kv ''Respuestas'' = Some (PList [PStr r1, PStr r2, PStr r3, PStr r4])
          \<and> map_of kv ''Respuesta correcta'' = Some (PStr rc)
          \<and> map_of kv ''Explicacion'' = Some (PStr ex) \<longrightarrow>
          generar_pregunta loads (Return (Some raw)) =
            Return [(''pregunta'', PStr p),
                    (''codigo'', PStr c),
                    (''respuestas'', PList [PStr r1, PStr r2, PStr r3, PStr r4]),
                    (''respuesta_correcta'', PStr rc),
                    (''explicacion'', PStr ex)])
         \<and> (\<exists>v1 v2 v3 v4 v5.
               generar_pregunta loads (Return (Some raw)) =
                 Return [(''pregunta'', v1), (''codigo'', v2), (''respuestas'', v3),
                         (''respuesta_correcta'', v4), (''explicacion'', v5)]
               \<and> (map_of kv ''Pregunta'' = None \<longrightarrow> v1 = PNone)
               \<and> (map_of kv ''Codigo'' = None \<longrightarrow> v2 = PNone)
               \<and> (map_of kv ''Respuestas'' = None \<longrightarrow> v3 = PList [])
               \<and> (map_of kv ''Respuesta correcta'' = None \<longrightarrow> v4 = PNone)
               \<and> (map_of kv ''Explicacion'' = None \<longrightarrow> v5 = PStr []))"
  unfolding generar_pregunta_parsed [of loads raw kv, OF assms]
  by (simp add: dict_get_def normalizar_respuestas_def)

theorem generar_pregunta_maps_fields_witness:
  "json_loads_sample (clean_text texto_completo) =
     Return (PDict [(''Pregunta'', PStr ''Que imprime print(1+1)?''),
                    (''Codigo'', PStr ''print(1+1)''),
                    (''Respuestas'', PList [PStr ''1'', PStr ''2'', PStr ''3'', PStr ''4'']),
                    (''Respuesta correcta'', PStr ''2''),
                    (''Explicacion'', PStr ''1+1 es 2'')])
   \<and> generar_pregunta json_loads_sample (Return (Some texto_completo)) =
        Return [(''pregunta'', PStr ''Que imprime print(1+1)?''),
                (''codigo'', PStr ''print(1+1)''),
                (''respuestas'', PList [PStr ''1'', PStr ''2'', PStr ''3'', PStr ''4'']),
                (''respuesta_correcta'', PStr ''2''),
                (''explicacion'', PStr ''1+1 es 2'')]
   \<and> json_loads_sample (clean_text ''{}'') = Return (PDict [])
   \<and> generar_pregunta json_loads_sample (Return (Some ''{}'')) =
        Return [(''pregunta'', PNone), (''codigo'', PNone), (''respuestas'', PList []),
                (''respuesta_correcta'', PNone), (''explicacion'', PStr [])]"
proof -
  let ?kv = "[(''Pregunta'', PStr ''Que imprime print(1+1)?''),
              (''Codigo'', PStr ''print(1+1)''),
              (''Respuestas'', PList [PStr ''1'', PStr ''2'', PStr ''3'', PStr ''4'']),
              (''Respuesta correcta'', PStr ''2''),
              (''Explicacion'', PStr ''1+1 es 2'')]"
  have h1: "json_loads_sample (clean_text texto_completo) = Return (PDict ?kv)"
    by (simp add: clean_text_def str_defs sample_defs)
  have h2: "json_loads_sample (clean_text ''{}'') = Return (PDict [])"
    by (simp add: clean_text_def str_defs sample_defs)
  have k: "map_of ?kv ''Pregunta'' = Some (PStr ''Que imprime print(1+1)?'')"
    "map_of ?kv ''Codigo'' = Some (PStr ''print(1+1)'')"
    "map_of ?kv ''Respuestas'' = Some (PList [PStr ''1'', PStr ''2'', PStr ''3'', PStr ''4''])"
    "map_of ?kv ''Respuesta correcta'' = Some (PStr ''2'')"
    "map_of ?kv ''Explicacion'' = Some (PStr ''1+1 es 2'')"
    by simp_all
  have e: "map_of ([] :: pydict) key = None" for key by simp
  from generar_pregunta_maps_fields [of json_loads_sample texto_completo ?kv
      "''Que imprime print(1+1)?''" "''print(1+1)''"
      "''1''" "''2''" "''3''" "''4''" "''2''" "''1+1 es 2''", OF h1] k
  have a: "generar_pregunta json_loads_sample (Return (Some texto_completo)) =
        Return [(''pregunta'', PStr ''Que imprime print(1+1)?''),
                (''codigo'', PStr ''print(1+1)''),
                (''respuestas'', PList [PStr ''1'', PStr ''2'', PStr ''3'', PStr ''4'']),
                (''respuesta_correcta'', PStr ''2''),
                (''explicacion'', PStr ''1+1 es 2'')]"
    by blast
  from generar_pregunta_maps_fields [of json_loads_sample "''{}''" "[]", OF h2] e
  have b: "generar_pregunta json_loads_sample (Return (Some ''{}'')) =
        Return [(''pregunta'', PNone), (''codigo'', PNone), (''respuestas'', PList []),
                (''respuesta_correcta'', PNone), (''explicacion'', PStr [])]"
    by auto
  from h1 h2 a b show ?thesis by blast
qed

subsection \<open>Splitting on commas\<close>

lemma split_sep_not_Nil: "split_sep c s \<noteq> []"
  by (induction s) (auto split: list.splits)

lemma split_sep_no_sep: "w \<in> set (split_sep c s) \<Longrightarrow> c \<notin> set w"
  by (induction s arbitrary: w) (auto split: list.splits if_splits)

lemma join_split_sep: "join_sep c (split_sep c s) = s"
proof (induction s)
  case Nil
  show ?case by simp
next
  case (Cons x xs)
  obtain w ws where sp: "split_sep c xs = w # ws"
    using split_sep_not_Nil [of c xs] by (cases "split_sep c xs") auto
  with Cons show ?case by (cases ws) auto
qed

text \<open>
  C9. On a parsed JSON object the answers are normalised and the record is returned, never
  the error record: a text is split at its commas and each piece stripped, so that
  \<^verbatim>\<open>A, B, C, D\<close> gives the four letters; a list is kept; anything else, a missing key
  included, gives the empty list.
\<close>

theorem generar_pregunta_respuestas:
  assumes "loads (clean_text raw) = Return (PDict kv)"
  shows "\<exists>q. generar_pregunta loads (Return (Some raw)) = Return q
           \<and> \<not> dict_has q ''error''
           \<and> (\<forall>s. map_of kv ''Respuestas'' = Some (PStr s) \<longrightarrow>
                  map_of q ''respuestas'' =
                    Some (PList (map (\<lambda>w. PStr (strip w)) (split_sep CHR '','' s))))
           \<and> (map_of kv ''Respuestas'' = Some (PStr ''A, B, C, D'') \<longrightarrow>
                  map_of q ''respuestas'' =
                    Some (PList [PStr ''A'', PStr ''B'', PStr ''C'', PStr ''D'']))
           \<and> (\<forall>xs. map_of kv ''Respuestas'' = Some (PList xs) \<longrightarrow>
                  map_of q ''respuestas'' = Some (PList xs))
           \<and> ((\<forall>s. map_of kv ''Respuestas'' \<noteq> Some (PStr s))
                \<and> (\<forall>xs. map_of kv ''Respuestas'' \<noteq> Some (PList xs)) \<longrightarrow>
                  map_of q ''respuestas'' = Some (PList []))"
proof -
  have other: "normalizar_respuestas v = PList []"
    if "\<forall>s. v \<noteq> PStr s" "\<forall>xs. v \<noteq> PList xs" for v
    using that by (cases v) (simp_all add: normalizar_respuestas_def)
  have abcd: "normalizar_respuestas (PStr ''A, B, C, D'') =
                PList [PStr ''A'', PStr ''B'', PStr ''C'', PStr ''D'']"
    by (simp add: normalizar_respuestas_def str_defs)
  have none: "(\<forall>s. map_of kv ''Respuestas'' \<noteq> Some (PStr s))
       \<and> (\<forall>xs. map_of kv ''Respuestas'' \<noteq> Some (PList xs)) \<Longrightarrow>
       normalizar_respuestas (dict_get kv ''Respuestas'' PNone) = PList []"
    by (rule other) (auto simp: dict_get_def split: option.splits)
  show ?thesis
    unfolding generar_pregunta_parsed [of loads raw kv, OF assms]
    using abcd none
    by (auto simp: dict_has_def dict_get_def normalizar_respuestas_def)
qed

theorem generar_pregunta_respuestas_witness:
  "json_loads_sample (clean_text texto_respuestas_str) =
     Return (PDict [(''Pregunta'', PStr ''P''), (''Codigo'', PStr ''C''),
                    (''Respuestas'', PStr ''A, B, C, D''),
                    (''Respuesta correcta'', PStr ''A'')])
   \<and> (\<exists>q. generar_pregunta json_loads_sample (Return (Some texto_respuestas_str)) = Return q
          \<and> \<not> dict_has q ''error''
          \<and> map_of q ''respuestas'' =
               Some (PList [PStr ''A'', PStr ''B'', PStr ''C'', PStr ''D'']))
   \<and> json_loads_sample (clean_text texto_explicacion_null) =
     Return (PDict [(''Pregunta'', PStr ''P''), (''Codigo'', PStr ''C''),
                    (''Respuestas'', PInt 7),
                    (''Respuesta correcta'', PStr ''A''),
                    (''Explicacion'', PNone)])
   \<and> (\<exists>q. generar_pregunta json_loads_sample (Return (Some texto_explicacion_null)) = Return q
          \<and> \<not> dict_has q ''error''
          \<and> map_of q ''respuestas'' = Some (PList []))"
proof -
  let ?kv1 = "[(''Pregunta'', PStr ''P''), (''Codigo'', PStr ''C''),
               (''Respuestas'', PStr ''A, B, C, D''),
               (''Respuesta correcta'', PStr ''A'')]"
  let ?kv2 = "[(''Pregunta'', PStr ''P''), (''Codigo'', PStr ''C''),
               (''Respuestas'', PInt 7),
               (''Respuesta correcta'', PStr ''A''),
               (''Explicacion'', PNone)]"
  have h1: "json_loads_sample (clean_text texto_respuestas_str) = Return (PDict ?kv1)"
    by (simp add: clean_text_def str_defs sample_defs)
  have h2: "json_loads_sample (clean_text texto_explicacion_null) = Return (PDict ?kv2)"
    by (simp add: clean_text_def str_defs sample_defs)
  have k1: "map_of ?kv1 ''Respuestas'' = Some (PStr ''A, B, C, D'')" by simp
  have k2: "map_of ?kv2 ''Respuestas'' = Some (PInt 7)" by simp
  from generar_pregunta_respuestas [of json_loads_sample texto_respuestas_str ?kv1, OF h1] k1
  have a: "\<exists>q. generar_pregunta json_loads_sample (Return (Some texto_respuestas_str)) = Return q
          \<and> \<not> dict_has q ''error''
          \<and> map_of q ''respuestas'' =
               Some (PList [PStr ''A'', PStr ''B'', PStr ''C'', PStr ''D''])"
    by blast
  from generar_pregunta_respuestas [of json_loads_sample texto_explicacion_null ?kv2, OF h2]
  have b: "\<exists>q. generar_pregunta json_loads_sample (Return (Some texto_explicacion_null)) = Return q
          \<and> \<not> dict_has q ''error''
          \<and> map_of q ''respuestas'' = Some (PList [])"
    unfolding k2 by auto
  from h1 h2 a b show ?thesis by blast
qed

subsection \<open>Code fences\<close>

lemma strip_between:
  assumes "t \<noteq> []" "\<not> isspace (hd t)" "\<not> isspace (last t)"
    and "\<forall>c\<in>set o1. isspace c" "\<forall>c\<in>set o2. isspace c"
  shows "strip (o1 @ t @ o2) = t"
proof -
  have front: "dropWhile isspace u = u" if "u \<noteq> []" "\<not> isspace (hd u)" for u
    using that by (cases u) simp_all
  have "dropWhile isspace (o1 @ t @ o2) = t @ o2"
    using assms front [of "t @ o2"] by (simp add: dropWhile_append2)
  moreover have "dropWhile isspace (rev o2 @ rev t) = dropWhile isspace (rev t)"
    by (rule dropWhile_append2) (use assms in auto)
  moreover have "dropWhile isspace (rev t) = rev t"
    using assms front [of "rev t"] by (simp add: hd_rev)
  ultimately show ?thesis by (simp add: strip_def)
qed

lemma not_endswith_fence:
  assumes "s \<noteq> []" "last s \<noteq> CHR ''`''"
  shows "\<not> endswith s ''```''"
proof
  assume "endswith s ''```''"
  then have le: "3 \<le> length s" and d: "drop (length s - 3) s = ''```''"
    by (simp_all add: endswith_def eval_nat_numeral)
  from le have "last (drop (length s - 3) s) = last s"
    by (intro last_drop) simp
  with d assms show False by simp
qed

lemma clean_text_plain:
  assumes "s \<noteq> []" "hd s = CHR ''{''" "last s = CHR ''}''"
  shows "clean_text s = s"
proof -
  have st: "strip s = s"
    using strip_between [of s "[]" "[]"] assms by (simp add: isspace_def)
  obtain u where s: "s = CHR ''{'' # u" using assms by (cases s) auto
  have a: "\<not> startswith s ''```json''" "\<not> startswith s ''```''"
    by (simp_all add: s startswith_def)
  have b: "\<not> endswith s ''```''"
    using not_endswith_fence [of s] assms by simp
  show ?thesis by (simp add: clean_text_def st a b)
qed

lemma clean_text_fenced:
  assumes "a \<noteq> CHR ''`''" "a \<noteq> CHR ''j''"
    and "pre = ''```json'' \<or> pre = ''```''"
    and "\<forall>c\<in>set o1. isspace c" "\<forall>c\<in>set o2. isspace c"
  shows "clean_text (o1 @ pre @ (a # u) @ ''```'' @ o2) = a # u"
proof -
  let ?t = "pre @ (a # u) @ ''```''"
  have "?t \<noteq> []" "\<not> isspace (hd ?t)" "\<not> isspace (last ?t)"
    using assms(3) by (auto simp: isspace_def)
  then have st: "strip (o1 @ ?t @ o2) = ?t"
    using strip_between [of ?t o1 o2] assms by blast
  have e: "endswith ((a # u) @ ''```'') ''```''"
    by (simp add: endswith_def)
  have n: "\<not> startswith ((a # u) @ ''```'') ''```''"
    using assms(1) by (simp add: startswith_def)
  from assms(3) have "clean_text (o1 @ ?t @ o2) = a # u"
  proof
    assume p: "pre = ''```json''"
    have "startswith ?t ''```json''" by (simp add: p startswith_def)
    moreover have "drop 7 ?t = (a # u) @ ''```''" by (simp add: p)
    ultimately show ?thesis
      using e n unfolding clean_text_def st Let_def by simp
  next
    assume p: "pre = ''```''"
    have "\<not> startswith ?t ''```json''" using assms(2) by (simp add: p startswith_def)
    moreover have "startswith ?t ''```''" by (simp add: p startswith_def)
    moreover have "drop 3 ?t = (a # u) @ ''```''" by (simp add: p)
    ultimately show ?thesis
      using e unfolding clean_text_def st Let_def by simp
  qed
  then show ?thesis by simp
qed

text \<open>
  C8, as the code has it. Let \<open>s\<close> be the text of a JSON object, from its opening brace
  to its closing brace, that \<^verbatim>\<open>json.loads\<close> decodes to the object \<open>kv\<close>. The fenced
  response is \<open>s\<close> between a fence \<^verbatim>\<open>```json\<close> or \<^verbatim>\<open>```\<close> and a closing \<^verbatim>\<open>```\<close>, with
  blanks between the fences and \<open>s\<close> that \<^verbatim>\<open>json.loads\<close> ignores and any white space
  around the whole; the unfenced response is \<open>s\<close> with any white space around it. Then
  the cleaning of the fenced response leaves exactly what stands between the fences, the
  cleaning of the unfenced response leaves \<open>s\<close>, and the generator returns the same
  result for both: the question record read from \<open>kv\<close>.
\<close>

theorem generar_pregunta_fenced:
  assumes "s \<noteq> []" "hd s = CHR ''{''" "last s = CHR ''}''"
    and "pre = ''```json'' \<or> pre = ''```''"
    and "\<forall>c\<in>set ws1. json_ws c" "\<forall>c\<in>set ws2. json_ws c"
    and "\<forall>c\<in>set o1. isspace c" "\<forall>c\<in>set o2. isspace c"
    and "\<forall>c\<in>set u1. isspace c" "\<forall>c\<in>set u2. isspace c"
    and "loads (ws1 @ s @ ws2) = loads s"
    and "loads s = Return (PDict kv)"
  shows "clean_text (o1 @ pre @ ws1 @ s @ ws2 @ ''```'' @ o2) = ws1 @ s @ ws2
         \<and> clean_text (u1 @ s @ u2) = s
         \<and> generar_pregunta loads (Return (Some (o1 @ pre @ ws1 @ s @ ws2 @ ''```'' @ o2))) =
             generar_pregunta loads (Return (Some (u1 @ s @ u2)))
         \<and> generar_pregunta loads (Return (Some (u1 @ s @ u2))) =
             Return [(''pregunta'', dict_get kv ''Pregunta'' PNone),
                     (''codigo'', dict_get kv ''Codigo'' PNone),
                     (''respuestas'', normalizar_respuestas (dict_get kv ''Respuestas'' PNone)),
                     (''respuesta_correcta'', dict_get kv ''Respuesta correcta'' PNone),
                     (''explicacion'', dict_get kv ''Explicacion'' (PStr []))]"
proof -
  obtain a u where au: "ws1 @ s @ ws2 = a # u" and a: "a \<noteq> CHR ''`''" "a \<noteq> CHR ''j''"
  proof (cases ws1)
    case Nil
    with assms(1,2) that show ?thesis by (cases s) auto
  next
    case (Cons b bs)
    with assms(5) have "json_ws b" by simp
    then have "b \<noteq> CHR ''`''" "b \<noteq> CHR ''j''" by (auto simp: json_ws_def)
    with Cons that show ?thesis by simp
  qed
  have "clean_text (o1 @ pre @ (a # u) @ ''```'' @ o2) = a # u"
    using a assms(4,7,8) by (rule clean_text_fenced)
  then have fenced: "clean_text (o1 @ pre @ ws1 @ s @ ws2 @ ''```'' @ o2) = ws1 @ s @ ws2"
    unfolding au [symmetric] by simp
  have st: "strip (u1 @ s @ u2) = s"
    using strip_between [of s u1 u2] assms(1-3,9,10) by (simp add: isspace_def)
  have "clean_text s = s"
    using assms(1-3) by (rule clean_text_plain)
  moreover have "strip s = s"
    using strip_between [of s "[]" "[]"] assms(1-3) by (simp add: isspace_def)
  ultimately have plain: "clean_text (u1 @ s @ u2) = s"
    by (simp add: clean_text_def st)
  have p1: "loads (clean_text (o1 @ pre @ ws1 @ s @ ws2 @ ''```'' @ o2)) = Return (PDict kv)"
    using fenced assms(11,12) by simp
  have p2: "loads (clean_text (u1 @ s @ u2)) = Return (PDict kv)"
    using plain assms(12) by simp
  have r1: "generar_pregunta loads (Return (Some (o1 @ pre @ ws1 @ s @ ws2 @ ''```'' @ o2))) =
             Return [(''pregunta'', dict_get kv ''Pregunta'' PNone),
                     (''codigo'', dict_get kv ''Codigo'' PNone),
                     (''respuestas'', normalizar_respuestas (dict_get kv ''Respuestas'' PNone)),
                     (''respuesta_correcta'', dict_get kv ''Respuesta correcta'' PNone),
                     (''explicacion'', dict_get kv ''Explicacion'' (PStr []))]"
    using p1 by (rule generar_pregunta_parsed [of loads _ kv])
  have r2: "generar_pregunta loads (Return (Some (u1 @ s @ u2))) =
             Return [(''pregunta'', dict_get kv ''Pregunta'' PNone),
                     (''codigo'', dict_get kv ''Codigo'' PNone),
                     (''respuestas'', normalizar_respuestas (dict_get kv ''Respuestas'' PNone)),
                     (''respuesta_correcta'', dict_get kv ''Respuesta correcta'' PNone),
                     (''explicacion'', dict_get kv ''Explicacion'' (PStr []))]"
    using p2 by (rule generar_pregunta_parsed [of loads _ kv])
  show ?thesis
    by (intro conjI fenced plain r2) (simp only: r1 r2)
qed

theorem generar_pregunta_fenced_witness:
  "generar_pregunta json_loads_sample
     (Return (Some (''```json'' @ [CHR 0x0A] @ texto_completo @ [CHR 0x0A] @ ''```'' @ [CHR 0x0A]))) =
   generar_pregunta json_loads_sample (Return (Some ([CHR 0x20] @ texto_completo @ [CHR 0x0A])))
   \<and> generar_pregunta json_loads_sample
     (Return (Some (''```'' @ texto_completo @ ''```''))) =
   generar_pregunta json_loads_sample (Return (Some texto_completo))
   \<and> generar_pregunta json_loads_sample (Return (Some texto_completo)) =
        Return [(''pregunta'', PStr ''Que imprime print(1+1)?''),
                (''codigo'', PStr ''print(1+1)''),
                (''respuestas'', PList [PStr ''1'', PStr ''2'', PStr ''3'', PStr ''4'']),
                (''respuesta_correcta'', PStr ''2''),
                (''explicacion'', PStr ''1+1 es 2'')]"
proof -
  let ?kv = "[(''Pregunta'', PStr ''Que imprime print(1+1)?''),
              (''Codigo'', PStr ''print(1+1)''),
              (''Respuestas'', PList [PStr ''1'', PStr ''2'', PStr ''3'', PStr ''4'']),
              (''Respuesta correcta'', PStr ''2''),
              (''Explicacion'', PStr ''1+1 es 2'')]"
  have s: "texto_completo \<noteq> []" "hd texto_completo = CHR ''{''" "last texto_completo = CHR ''}''"
    by (simp_all add: texto_completo_def)
  have l: "json_loads_sample texto_completo = Return (PDict ?kv)"
    by (simp add: sample_defs)
  have w: "json_loads_sample ([CHR 0x0A] @ texto_completo @ [CHR 0x0A]) =
             json_loads_sample texto_completo"
    by (simp add: sample_defs)
  have n: "json_loads_sample ([] @ texto_completo @ []) = json_loads_sample texto_completo"
    by simp
  have b: "\<forall>c\<in>set [CHR 0x0A]. json_ws c" "\<forall>c\<in>set [CHR 0x0A]. isspace c"
    "\<forall>c\<in>set ([] :: string). json_ws c" "\<forall>c\<in>set ([] :: string). isspace c"
    "\<forall>c\<in>set [CHR 0x20]. isspace c"
    by (simp_all add: json_ws_def isspace_def)
  have p: "''```json'' = ''```json'' \<or> ''```json'' = ''```''"
    "''```'' = ''```json'' \<or> ''```'' = ''```''"
    by simp_all
  from generar_pregunta_fenced [of texto_completo "''```json''" "[CHR 0x0A]" "[CHR 0x0A]" "[]"
      "[CHR 0x0A]" "[CHR 0x20]" "[CHR 0x0A]" json_loads_sample ?kv,
      OF s p(1) b(1) b(1) b(4) b(2) b(5) b(2) w l]
  have one: "generar_pregunta json_loads_sample
     (Return (Some (''```json'' @ [CHR 0x0A] @ texto_completo @ [CHR 0x0A] @ ''```'' @ [CHR 0x0A]))) =
   generar_pregunta json_loads_sample (Return (Some ([CHR 0x20] @ texto_completo @ [CHR 0x0A])))"
    by simp
  from generar_pregunta_fenced [of texto_completo "''```''" "[]" "[]" "[]"
      "[]" "[]" "[]" json_loads_sample ?kv, OF s p(2) b(3) b(3) b(4) b(4) b(4) b(4) n l]
  have two: "generar_pregunta json_loads_sample
     (Return (Some (''```'' @ texto_completo @ ''```''))) =
   generar_pregunta json_loads_sample (Return (Some texto_completo))
   \<and> generar_pregunta json_loads_sample (Return (Some texto_completo)) =
        Return [(''pregunta'', PStr ''Que imprime print(1+1)?''),
                (''codigo'', PStr ''print(1+1)''),
                (''respuestas'', PList [PStr ''1'', PStr ''2'', PStr ''3'', PStr ''4'']),
                (''respuesta_correcta'', PStr ''2''),
                (''explicacion'', PStr ''1+1 es 2'')]"
    by (simp add: dict_get_def normalizar_respuestas_def)
  from one two show ?thesis by blast
qed

text \<open>
  The claim as written, for every JSON payload, fails on a payload that is valid JSON but
  no object: both calls return an error record, each with its own raw text.
\<close>

theorem generar_pregunta_fenced_counterexample:
  "json_loads_sample (clean_text ''```json[1]```'') = Return (PList [PInt 1])
   \<and> json_loads_sample (clean_text ''[1]'') = Return (PList [PInt 1])
   \<and> generar_pregunta json_loads_sample (Return (Some ''```json[1]```'')) =
        Return [(''error'', PStr ''No se pudo extraer el JSON''),
                (''detalle'', PStr (attribute_error (PList [PInt 1]) ''get'')),
                (''texto'', PStr ''```json[1]```'')]
   \<and> generar_pregunta json_loads_sample (Return (Some ''[1]'')) =
        Return [(''error'', PStr ''No se pudo extraer el JSON''),
                (''detalle'', PStr (attribute_error (PList [PInt 1]) ''get'')),
                (''texto'', PStr ''[1]'')]
   \<and> generar_pregunta json_loads_sample (Return (Some ''```json[1]```'')) \<noteq>
       generar_pregunta json_loads_sample (Return (Some ''[1]''))"
  by (simp add: generar_defs clean_text_def str_defs sample_defs)

section \<open>Facts about the refill worker\<close>

lemma precargar_paso_Some: "\<exists>q' t. precargar_paso gen q = Some (q', t)"
  by (auto simp: precargar_paso_def cache_put_def CACHE_MIN_def CACHE_SIZE_def
      split: outcome.splits)

lemma precargar_preguntas_runs:
  "\<exists>q' ts. precargar_preguntas gens q = Some (q', ts) \<and> length ts = length gens"
proof (induction gens arbitrary: q)
  case Nil
  show ?case by simp
next
  case (Cons gen gens)
  obtain q1 t where one: "precargar_paso gen q = Some (q1, t)"
    using precargar_paso_Some by blast
  obtain q2 ts where rest: "precargar_preguntas gens q1 = Some (q2, ts)" "length ts = length gens"
    using Cons.IH by blast
  show ?case by (simp add: one rest)
qed

text \<open>
  C7. One turn of the worker sleeps 2 seconds when the queue holds at least
  \<open>CACHE_MIN = 100\<close> records; below that it sleeps 1 second when the generation returns,
  whether or not the record is put in the queue, 35 seconds when the generation raises
  with the quota marker in the message, and 5 seconds when it raises without it. No turn
  raises or waits for ever, so the loop runs a turn for every generation outcome it
  meets, whatever these are.
\<close>

theorem precargar_sleeps:
  "CACHE_MIN = 100
   \<and> (CACHE_MIN \<le> length q \<longrightarrow> precargar_paso gen q = Some (q, 2))
   \<and> (length q < CACHE_MIN \<and> gen = Return pregunta \<longrightarrow>
        precargar_paso gen q = Some (if valida pregunta then q @ [pregunta] else q, 1))
   \<and> (length q < CACHE_MIN \<and> gen = Raise e \<and> contains ''RESOURCE_EXHAUSTED'' e \<longrightarrow>
        precargar_paso gen q = Some (q, 35))
   \<and> (length q < CACHE_MIN \<and> gen = Raise e \<and> \<not> contains ''RESOURCE_EXHAUSTED'' e \<longrightarrow>
        precargar_paso gen q = Some (q, 5))
   \<and> (\<exists>q' ts. precargar_preguntas gens q = Some (q', ts) \<and> length ts = length gens
         \<and> (\<forall>t\<in>set ts. t = 1 \<or> t = 2 \<or> t = 5 \<or> t = 35))"
proof -
  have sl: "t = 1 \<or> t = 2 \<or> t = 5 \<or> t = 35" if "precargar_paso g q0 = Some (q1, t)"
    for g q0 q1 t
    using that by (auto simp: precargar_paso_def split: if_splits outcome.splits option.splits)
  have all: "precargar_preguntas gs q0 = Some (q1, ts) \<Longrightarrow>
             \<forall>t\<in>set ts. t = 1 \<or> t = 2 \<or> t = 5 \<or> t = 35" for gs q0 q1 ts
  proof (induction gs arbitrary: q0 q1 ts)
    case Nil
    then show ?case by simp
  next
    case (Cons g gs)
    from Cons.prems obtain qa t qb ts' where
      "precargar_paso g q0 = Some (qa, t)" "precargar_preguntas gs qa = Some (qb, ts')"
      "ts = t # ts'"
      by (auto split: option.splits prod.splits)
    with Cons.IH [of qa qb ts'] sl [of g q0 qa t] show ?case by auto
  qed
  have run: "\<exists>q' ts. precargar_preguntas gens q = Some (q', ts) \<and> length ts = length gens
         \<and> (\<forall>t\<in>set ts. t = 1 \<or> t = 2 \<or> t = 5 \<or> t = 35)"
    using precargar_preguntas_runs [of gens q] all by blast
  have a: "CACHE_MIN \<le> length q \<longrightarrow> precargar_paso gen q = Some (q, 2)"
    by (simp add: precargar_paso_def)
  have b: "length q < CACHE_MIN \<and> gen = Return pregunta \<longrightarrow>
        precargar_paso gen q = Some (if valida pregunta then q @ [pregunta] else q, 1)"
    by (simp add: precargar_paso_def cache_put_def CACHE_MIN_def CACHE_SIZE_def)
  have c: "length q < CACHE_MIN \<and> gen = Raise e \<and> contains ''RESOURCE_EXHAUSTED'' e \<longrightarrow>
        precargar_paso gen q = Some (q, 35)"
    by (simp add: precargar_paso_def MARKER_def)
  have d: "length q < CACHE_MIN \<and> gen = Raise e \<and> \<not> contains ''RESOURCE_EXHAUSTED'' e \<longrightarrow>
        precargar_paso gen q = Some (q, 5)"
    by (simp add: precargar_paso_def MARKER_def)
  from a b c d run show ?thesis by (simp add: CACHE_MIN_def)
qed

theorem precargar_sleeps_witness:
  "precargar_paso (Raise ''down'') (replicate 100 []) = Some (replicate 100 [], 2)
   \<and> precargar_paso (Return [(''pregunta'', PStr ''P''), (''codigo'', PStr ''C'')]) [] =
        Some ([[(''pregunta'', PStr ''P''), (''codigo'', PStr ''C'')]], 1)
   \<and> precargar_paso (Return [(''error'', PStr ''E'')]) [] = Some ([], 1)
   \<and> precargar_paso (Raise ''429 RESOURCE_EXHAUSTED. Quota exceeded'') [] = Some ([], 35)
   \<and> precargar_paso (Raise ''503 UNAVAILABLE'') [] = Some ([], 5)
   \<and> (\<exists>q' ts. precargar_preguntas
          [Raise ''503 UNAVAILABLE'', Return [(''error'', PStr ''E'')]] [] = Some (q', ts)
        \<and> length ts = 2)"
proof -
  let ?p = "[(''pregunta'', PStr ''P''), (''codigo'', PStr ''C'')]"
  let ?e = "[(''error'', PStr ''E'')]"
  have v: "valida ?p" "\<not> valida ?e" by (simp_all add: valida_def dict_has_def)
  have m: "contains ''RESOURCE_EXHAUSTED'' ''429 RESOURCE_EXHAUSTED. Quota exceeded''"
    "\<not> contains ''RESOURCE_EXHAUSTED'' ''503 UNAVAILABLE''"
    by (simp_all add: startswith_def)
  have l: "CACHE_MIN \<le> length (replicate 100 ([] :: pydict))"
    "length ([] :: pydict list) < CACHE_MIN"
    by (simp_all add: CACHE_MIN_def)
  have a: "precargar_paso (Raise ''down'') (replicate 100 []) = Some (replicate 100 [], 2)"
    using precargar_sleeps [of "replicate 100 []" "Raise ''down''" "[]" "[]" "[]"] l by blast
  have "precargar_paso (Return ?p) [] = Some (if valida ?p then [] @ [?p] else [], 1)"
    using precargar_sleeps [of "[]" "Return ?p" ?p "[]" "[]"] l by blast
  with v have b: "precargar_paso (Return ?p) [] = Some ([?p], 1)" by simp
  have "precargar_paso (Return ?e) [] = Some (if valida ?e then [] @ [?e] else [], 1)"
    using precargar_sleeps [of "[]" "Return ?e" ?e "[]" "[]"] l by blast
  with v have c: "precargar_paso (Return ?e) [] = Some ([], 1)" by simp
  have d: "precargar_paso (Raise ''429 RESOURCE_EXHAUSTED. Quota exceeded'') [] = Some ([], 35)"
    using precargar_sleeps [of "[]" "Raise ''429 RESOURCE_EXHAUSTED. Quota exceeded''" "[]"
      "''429 RESOURCE_EXHAUSTED. Quota exceeded''" "[]"] l m by blast
  have e: "precargar_paso (Raise ''503 UNAVAILABLE'') [] = Some ([], 5)"
    using precargar_sleeps [of "[]" "Raise ''503 UNAVAILABLE''" "[]" "''503 UNAVAILABLE''" "[]"]
      l m by blast
  have "\<exists>q' ts. precargar_preguntas [Raise ''503 UNAVAILABLE'', Return ?e] [] = Some (q', ts)
        \<and> length ts = length [Raise ''503 UNAVAILABLE'', Return ?e]"
    using precargar_sleeps [of "[]" "Raise ''down''" "[]" "[]"
      "[Raise ''503 UNAVAILABLE'', Return ?e]"] by blast
  then have f: "\<exists>q' ts. precargar_preguntas [Raise ''503 UNAVAILABLE'', Return ?e] [] = Some (q', ts)
        \<and> length ts = 2"
    by (simp del: precargar_preguntas.simps add: numeral_2_eq_2)
  from a b c d e f show ?thesis by blast
qed

section \<open>Facts about the accessor\<close>

text \<open>
  C3. When the wait on the queue ends empty and the generation returns an error record
  whose \<open>detalle\<close> is a text holding the quota marker, the accessor returns the fixed
  record: the usage-limit text, empty code, no options, empty correct answer and the
  request to wait a minute; nothing of the error record is in it.
\<close>

theorem obtener_pregunta_cache_sentinel:
  assumes "cache_get q = None"
    and "gen = Return pregunta"
    and "dict_has pregunta ''error''"
    and "dict_get pregunta ''detalle'' (PStr []) = PStr detalle"
    and "contains ''RESOURCE_EXHAUSTED'' detalle"
  shows "obtener_pregunta_cache gen q =
           (Return [(''pregunta'', PStr (CHR 0xA1 # ''L'' @ CHR 0xED # ''mite de uso alcanzado!'')),
                    (''codigo'', PStr []),
                    (''respuestas'', PList []),
                    (''respuesta_correcta'', PStr []),
                    (''explicacion'', PStr (''Se ha superado el l'' @ CHR 0xED #
                       ''mite de uso de la API. Por favor, espera un minuto y vuelve a intentarlo.''))],
            q)"
  using assms
  by (simp add: obtener_pregunta_cache_def py_in_def MARKER_def limite_alcanzado_def)

theorem obtener_pregunta_cache_sentinel_witness:
  "cache_get [] = None
   \<and> dict_has [(''error'', PStr ''No se pudo extraer el JSON''),
                (''detalle'', PStr ''429 RESOURCE_EXHAUSTED''),
                (''texto'', PStr ''hola'')] ''error''
   \<and> obtener_pregunta_cache
        (Return [(''error'', PStr ''No se pudo extraer el JSON''),
                 (''detalle'', PStr ''429 RESOURCE_EXHAUSTED''),
                 (''texto'', PStr ''hola'')]) [] =
        (Return [(''pregunta'', PStr (CHR 0xA1 # ''L'' @ CHR 0xED # ''mite de uso alcanzado!'')),
                 (''codigo'', PStr []),
                 (''respuestas'', PList []),
                 (''respuesta_correcta'', PStr []),
                 (''explicacion'', PStr (''Se ha superado el l'' @ CHR 0xED #
                    ''mite de uso de la API. Por favor, espera un minuto y vuelve a intentarlo.''))],
         [])"
proof -
  let ?d = "[(''error'', PStr ''No se pudo extraer el JSON''),
             (''detalle'', PStr ''429 RESOURCE_EXHAUSTED''),
             (''texto'', PStr ''hola'')]"
  have h1: "cache_get [] = None" by (simp add: cache_get_def)
  have h2: "dict_has ?d ''error''" by (simp add: dict_has_def)
  have h3: "dict_get ?d ''detalle'' (PStr []) = PStr ''429 RESOURCE_EXHAUSTED''"
    by (simp add: dict_get_def)
  have h4: "contains ''RESOURCE_EXHAUSTED'' ''429 RESOURCE_EXHAUSTED''"
    by (simp add: startswith_def)
  from obtener_pregunta_cache_sentinel [OF h1 refl h2 h3 h4] h1 h2 show ?thesis by simp
qed

lemma construir_pregunta_keys:
  assumes "construir_pregunta (PDict kv) = Return d"
  shows "\<not> dict_has d ''error''" and "valida d"
  using assms by (auto simp: construir_pregunta_def dict_has_def valida_def)

lemma generar_pregunta_returns: "\<exists>d. generar_pregunta loads (Return rt) = Return d"
  by (cases "try_generar loads rt") (simp_all add: generar_pregunta_def)

lemma obtener_pregunta_cache_raises:
  "obtener_pregunta_cache (generar_pregunta loads (Raise e)) [] = (Raise e, [])"
  by (simp add: obtener_pregunta_cache_def cache_get_def generar_pregunta_def)

lemma obtener_pregunta_cache_queue:
  assumes "obtener_pregunta_cache gen q = (r, q')"
  shows "q' = q \<or> (\<exists>x. q = x # q' \<and> r = Return x)"
  using assms
  by (auto simp: obtener_pregunta_cache_def cache_get_def
      split: list.splits outcome.splits if_splits)

text \<open>
  C2, as the code has it. When the client call returns a response, whatever its text and
  whatever \<^verbatim>\<open>json.loads\<close> does, the accessor returns a dict and raises nothing: the
  oldest record when the queue holds one; otherwise the question record the generator
  built, or, when the generator returned an error record, the fixed usage-limit record if
  its \<open>detalle\<close> holds the quota marker and that error record itself if not.
\<close>

theorem obtener_pregunta_cache_returns:
  "\<exists>d q'. obtener_pregunta_cache (generar_pregunta loads (Return rt)) q = (Return d, q')
     \<and> (\<forall>x rest. q = x # rest \<longrightarrow> d = x \<and> q' = rest)
     \<and> (q = [] \<longrightarrow> q' = [] \<and>
          (\<exists>p. generar_pregunta loads (Return rt) = Return p \<and>
             ((\<exists>kv. construir_pregunta (PDict kv) = Return p) \<and> d = p
              \<or> (\<exists>e t. p = [(''error'', PStr ''No se pudo extraer el JSON''),
                              (''detalle'', PStr e), (''texto'', t)]
                   \<and> d = (if contains ''RESOURCE_EXHAUSTED'' e then limite_alcanzado else p)))))"
proof (cases q)
  case (Cons x rest)
  then show ?thesis by (simp add: obtener_pregunta_cache_def cache_get_def)
next
  case Nil
  obtain p where p: "generar_pregunta loads (Return rt) = Return p"
    using generar_pregunta_returns by blast
  from generar_pregunta_shape [OF p] show ?thesis
  proof
    assume "\<exists>kv. construir_pregunta (PDict kv) = Return p"
    then obtain kv where kv: "construir_pregunta (PDict kv) = Return p" ..
    then have "\<not> dict_has p ''error''" by (rule construir_pregunta_keys)
    with Nil p kv show ?thesis
      by (auto simp: obtener_pregunta_cache_def cache_get_def)
  next
    assume "\<exists>e t. p = [(''error'', PStr ''No se pudo extraer el JSON''),
                         (''detalle'', PStr e), (''texto'', t)]"
    then obtain e t where e: "p = [(''error'', PStr ''No se pudo extraer el JSON''),
                         (''detalle'', PStr e), (''texto'', t)]" by blast
    have "obtener_pregunta_cache (Return p) [] =
            (Return (if contains ''RESOURCE_EXHAUSTED'' e then limite_alcanzado else p), [])"
      by (simp add: e obtener_pregunta_cache_def cache_get_def dict_has_def dict_get_def
          py_in_def MARKER_def)
    with Nil p e show ?thesis by auto
  qed
qed

theorem obtener_pregunta_cache_returns_witness:
  "obtener_pregunta_cache (generar_pregunta json_loads_sample (Return (Some ''hola'')))
     [[(''pregunta'', PStr ''P''), (''codigo'', PStr ''C'')]] =
     (Return [(''pregunta'', PStr ''P''), (''codigo'', PStr ''C'')], [])
   \<and> (\<exists>d. obtener_pregunta_cache
             (generar_pregunta json_loads_sample (Return (Some texto_completo))) [] =
             (Return d, [])
          \<and> d = [(''pregunta'', PStr ''Que imprime print(1+1)?''),
                  (''codigo'', PStr ''print(1+1)''),
                  (''respuestas'', PList [PStr ''1'', PStr ''2'', PStr ''3'', PStr ''4'']),
                  (''respuesta_correcta'', PStr ''2''),
                  (''explicacion'', PStr ''1+1 es 2'')])"
proof -
  let ?x = "[(''pregunta'', PStr ''P''), (''codigo'', PStr ''C'')]"
  have a: "obtener_pregunta_cache (generar_pregunta json_loads_sample (Return (Some ''hola'')))
     [?x] = (Return ?x, [])"
    using obtener_pregunta_cache_returns [of json_loads_sample "Some ''hola''" "[?x]"]
    by auto
  have g: "generar_pregunta json_loads_sample (Return (Some texto_completo)) =
        Return [(''pregunta'', PStr ''Que imprime print(1+1)?''),
                (''codigo'', PStr ''print(1+1)''),
                (''respuestas'', PList [PStr ''1'', PStr ''2'', PStr ''3'', PStr ''4'']),
                (''respuesta_correcta'', PStr ''2''),
                (''explicacion'', PStr ''1+1 es 2'')]"
    by (simp add: generar_defs clean_text_def str_defs sample_defs normalizar_respuestas_def)
  have b: "\<exists>d. obtener_pregunta_cache
             (generar_pregunta json_loads_sample (Return (Some texto_completo))) [] =
             (Return d, [])
          \<and> d = [(''pregunta'', PStr ''Que imprime print(1+1)?''),
                  (''codigo'', PStr ''print(1+1)''),
                  (''respuestas'', PList [PStr ''1'', PStr ''2'', PStr ''3'', PStr ''4'']),
                  (''respuesta_correcta'', PStr ''2''),
                  (''explicacion'', PStr ''1+1 es 2'')]"
    using obtener_pregunta_cache_returns [of json_loads_sample "Some texto_completo" "[]"]
    unfolding g by auto
  from a b show ?thesis by blast
qed

text \<open>
  The claim as written fails: with the queue empty and a response that is no JSON, the
  accessor returns the error record of the generator, raw text included.
\<close>

theorem obtener_pregunta_cache_counterexample:
  "obtener_pregunta_cache (generar_pregunta json_loads_sample (Return (Some ''hola''))) [] =
     (Return [(''error'', PStr ''No se pudo extraer el JSON''),
              (''detalle'', PStr ''Expecting value: line 1 column 1 (char 0)''),
              (''texto'', PStr ''hola'')], [])"
  by (simp add: obtener_pregunta_cache_def cache_get_def generar_defs clean_text_def str_defs
      sample_defs dict_has_def py_in_def MARKER_def)

section \<open>Facts about the running system\<close>

lemma generar_pregunta_valida:
  assumes "generar_pregunta loads cli = Return d"
  shows "valida d = (\<not> dict_has d ''error'')"
    and "valida d = (\<exists>kv. construir_pregunta (PDict kv) = Return d)"
proof -
  from generar_pregunta_shape [OF assms]
  have "valida d = (\<not> dict_has d ''error'')
        \<and> valida d = (\<exists>kv. construir_pregunta (PDict kv) = Return d)"
  proof
    assume q: "\<exists>kv. construir_pregunta (PDict kv) = Return d"
    then show ?thesis using construir_pregunta_keys by blast
  next
    assume "\<exists>e t. d = [(''error'', PStr ''No se pudo extraer el JSON''),
                         (''detalle'', PStr e), (''texto'', t)]"
    then obtain e t where d: "d = [(''error'', PStr ''No se pudo extraer el JSON''),
                         (''detalle'', PStr e), (''texto'', t)]" by blast
    have "\<not> valida d" "dict_has d ''error''" by (simp_all add: d valida_def dict_has_def)
    moreover have "\<not> (\<exists>kv. construir_pregunta (PDict kv) = Return d)"
      by (simp add: d construir_pregunta_def)
    ultimately show ?thesis by simp
  qed
  then show "valida d = (\<not> dict_has d ''error'')"
    and "valida d = (\<exists>kv. construir_pregunta (PDict kv) = Return d)" by blast+
qed

lemma step_queue:
  assumes "step loads s s'"
  shows "queue s' = queue s
         \<or> (\<exists>x. queue s = x # queue s')
         \<or> (\<exists>p. worker_at s = AtPut p \<and> length (queue s) < CACHE_SIZE
                 \<and> queue s' = queue s @ [p] \<and> worker_at s' = AtCheck)"
  using assms
proof cases
  case (enqueue pregunta q')
  then show ?thesis by (auto simp: cache_put_def split: if_splits)
next
  case (consume cli r q')
  with obtener_pregunta_cache_queue [of "generar_pregunta loads cli" "queue s" r q']
  show ?thesis by auto
qed auto

lemma step_worker:
  assumes "step loads s s'" "worker_at s' = AtPut p"
  shows "worker_at s = AtPut p \<or> (worker_at s = AtGenerate \<and> built p)"
  using assms
proof cases
  case (generate_valid cli pregunta)
  with assms(2) generar_pregunta_valida(2) [of loads cli pregunta] show ?thesis
    by auto
qed auto

lemma reachable_built:
  assumes "reachable loads s"
  shows "(\<forall>d\<in>set (queue s). built d) \<and> (\<forall>p. worker_at s = AtPut p \<longrightarrow> built p)"
  using assms
proof induction
  case start
  show ?case by simp
next
  case (next_step s s')
  have w: "\<forall>p. worker_at s' = AtPut p \<longrightarrow> built p"
    using step_worker [OF next_step.hyps(2)] next_step.IH by blast
  have q: "\<forall>d\<in>set (queue s'). built d"
    using step_queue [OF next_step.hyps(2)] next_step.IH by (auto simp: set_ConsD)
  from w q show ?case by blast
qed

lemma reachable_size:
  assumes "reachable loads s"
  shows "length (queue s) \<le> CACHE_SIZE"
  using assms
proof induction
  case start
  show ?case by simp
next
  case (next_step s s')
  from step_queue [OF next_step.hyps(2)] next_step.IH show ?case by auto
qed

lemma reachable_below_min:
  assumes "reachable loads s"
  shows "length (queue s) \<le> CACHE_MIN \<and> (worker_at s \<noteq> AtCheck \<longrightarrow> length (queue s) < CACHE_MIN)"
  using assms
proof induction
  case start
  show ?case by simp
next
  case (next_step s s')
  from next_step.hyps(2) next_step.IH show ?case
  proof cases
    case (consume cli r q')
    with obtener_pregunta_cache_queue [of "generar_pregunta loads cli" "queue s" r q']
      next_step.IH show ?thesis by auto
  qed (auto simp: cache_put_def split: if_splits)
qed

lemma reachable_one:
  assumes "generar_pregunta loads cli = Return p" "valida p"
  shows "reachable loads \<lparr>queue = [p], worker_at = AtCheck\<rparr>"
proof -
  let ?s0 = "\<lparr>queue = [], worker_at = AtCheck\<rparr>"
  let ?s1 = "\<lparr>queue = [], worker_at = AtGenerate\<rparr>"
  let ?s2 = "\<lparr>queue = [], worker_at = AtPut p\<rparr>"
  have "step loads ?s0 (?s0\<lparr>worker_at := AtGenerate\<rparr>)"
    by (rule step.check_low) (simp_all add: CACHE_MIN_def)
  then have r1: "reachable loads ?s1"
    using reachable.next_step [OF reachable.start, of loads] by simp
  have "step loads ?s1 (?s1\<lparr>worker_at := AtPut p\<rparr>)"
    using assms by (intro step.generate_valid [of _ _ cli]) simp_all
  with r1 have r2: "reachable loads ?s2"
    using reachable.next_step [of loads ?s1] by simp
  have "step loads ?s2 (?s2\<lparr>queue := [p], worker_at := AtCheck\<rparr>)"
    by (rule step.enqueue [of _ p]) (simp_all add: cache_put_def CACHE_SIZE_def)
  with r2 show ?thesis
    using reachable.next_step [of loads ?s2] by simp
qed

lemma normalizar_respuestas_list: "\<exists>xs. normalizar_respuestas v = PList xs"
  by (cases v) (simp_all add: normalizar_respuestas_def)

text \<open>
  C1. In every state the worker and the consumers can reach, in whatever order they take
  their steps, the queue holds at most \<open>CACHE_SIZE = 200\<close> records; \<^verbatim>\<open>put\<close> on a queue
  of 200 records makes its caller wait and leaves the queue as it is, and a \<^verbatim>\<open>put\<close> that
  goes through adds one record at the end of a queue that stays within 200.
\<close>

theorem cache_bounded:
  "(reachable loads s \<longrightarrow> length (queue s) \<le> 200)
   \<and> (200 \<le> length q \<longrightarrow> cache_put q x = None)
   \<and> (cache_put q x = Some q' \<longrightarrow> q' = q @ [x] \<and> length q' \<le> 200)"
  using reachable_size [of loads s]
  by (auto simp: cache_put_def CACHE_SIZE_def split: if_splits)

theorem cache_bounded_witness:
  "reachable json_loads_sample
     \<lparr>queue = [[(''pregunta'', PNone), (''codigo'', PNone), (''respuestas'', PList []),
                 (''respuesta_correcta'', PNone), (''explicacion'', PStr [])]],
      worker_at = AtCheck\<rparr>
   \<and> length (queue \<lparr>queue = [[(''pregunta'', PNone), (''codigo'', PNone),
                 (''respuestas'', PList []), (''respuesta_correcta'', PNone),
                 (''explicacion'', PStr [])]], worker_at = AtCheck\<rparr>) \<le> 200
   \<and> cache_put (replicate 200 []) [] = None
   \<and> cache_put [] [(''pregunta'', PNone)] = Some [[(''pregunta'', PNone)]]"
proof -
  let ?p = "[(''pregunta'', PNone), (''codigo'', PNone), (''respuestas'', PList []),
             (''respuesta_correcta'', PNone), (''explicacion'', PStr [])]"
  have g: "generar_pregunta json_loads_sample (Return (Some ''{}'')) = Return ?p"
    by (simp add: generar_defs clean_text_def str_defs sample_defs normalizar_respuestas_def)
  have v: "valida ?p" by (simp add: valida_def dict_has_def)
  have r: "reachable json_loads_sample \<lparr>queue = [?p], worker_at = AtCheck\<rparr>"
    using g v by (rule reachable_one)
  have a: "length (queue \<lparr>queue = [?p], worker_at = AtCheck\<rparr>) \<le> 200"
    using cache_bounded [of json_loads_sample "\<lparr>queue = [?p], worker_at = AtCheck\<rparr>"] r
    by blast
  have b: "cache_put (replicate 200 []) [] = None"
    using cache_bounded [of _ _ "replicate 200 []" "[]"] by simp
  have c: "cache_put [] [(''pregunta'', PNone)] = Some [[(''pregunta'', PNone)]]"
    by (simp add: cache_put_def CACHE_SIZE_def)
  from r a b c show ?thesis by blast
qed

text \<open>
  C4, as the code has it. In a turn of the worker below the low watermark, the generated
  result is put in the queue exactly when it is a dict with the keys \<open>pregunta\<close> and
  \<open>codigo\<close>; for what the generator returns this is exactly when it is a question record
  (built from a JSON object, whatever values the two keys hold) and exactly when it is
  no error record. A generation that raises, or a turn at or above the watermark, leaves
  the queue as it is. So no reachable queue holds an error record.
\<close>

theorem precargar_enqueues_question_records:
  "(length q < CACHE_MIN \<and> generar_pregunta loads cli = Return d \<longrightarrow>
      precargar_paso (generar_pregunta loads cli) q =
        Some (if dict_has d ''pregunta'' \<and> dict_has d ''codigo'' then q @ [d] else q, 1)
      \<and> (dict_has d ''pregunta'' \<and> dict_has d ''codigo'') = built d
      \<and> built d = (\<not> dict_has d ''error''))
   \<and> (generar_pregunta loads cli = Raise e \<or> CACHE_MIN \<le> length q \<longrightarrow>
      (\<exists>t. precargar_paso (generar_pregunta loads cli) q = Some (q, t)))
   \<and> (reachable loads s \<longrightarrow> (\<forall>r\<in>set (queue s). built r \<and> \<not> dict_has r ''error''))"
proof (intro conjI impI)
  assume a: "length q < CACHE_MIN \<and> generar_pregunta loads cli = Return d"
  then have g: "generar_pregunta loads cli = Return d" ..
  from a show "precargar_paso (generar_pregunta loads cli) q =
        Some (if dict_has d ''pregunta'' \<and> dict_has d ''codigo'' then q @ [d] else q, 1)"
    by (simp add: precargar_paso_def valida_def cache_put_def CACHE_MIN_def CACHE_SIZE_def)
  show "(dict_has d ''pregunta'' \<and> dict_has d ''codigo'') = built d"
    using generar_pregunta_valida(2) [OF g] by (simp add: valida_def)
  show "built d = (\<not> dict_has d ''error'')"
    using generar_pregunta_valida [OF g] by blast
next
  assume "generar_pregunta loads cli = Raise e \<or> CACHE_MIN \<le> length q"
  then show "\<exists>t. precargar_paso (generar_pregunta loads cli) q = Some (q, t)"
    by (auto simp: precargar_paso_def)
next
  assume r: "reachable loads s"
  show "\<forall>r\<in>set (queue s). built r \<and> \<not> dict_has r ''error''"
    using reachable_built [OF r] construir_pregunta_keys(1) by blast
qed

theorem precargar_enqueues_question_records_witness:
  "precargar_paso (generar_pregunta json_loads_sample (Return (Some texto_respuestas_str))) [] =
     Some ([[(''pregunta'', PStr ''P''), (''codigo'', PStr ''C''),
             (''respuestas'', PList [PStr ''A'', PStr ''B'', PStr ''C'', PStr ''D'']),
             (''respuesta_correcta'', PStr ''A''), (''explicacion'', PStr [])]], 1)
   \<and> precargar_paso (generar_pregunta json_loads_sample (Return (Some ''hola''))) [] =
     Some ([], 1)
   \<and> (\<exists>t. precargar_paso (generar_pregunta json_loads_sample (Raise ''503 UNAVAILABLE'')) [] =
          Some ([], t))
   \<and> reachable json_loads_sample
       \<lparr>queue = [[(''pregunta'', PStr ''P''), (''codigo'', PStr ''C''),
             (''respuestas'', PList [PStr ''A'', PStr ''B'', PStr ''C'', PStr ''D'']),
             (''respuesta_correcta'', PStr ''A''), (''explicacion'', PStr [])]],
        worker_at = AtCheck\<rparr>
   \<and> \<not> dict_has [(''pregunta'', PStr ''P''), (''codigo'', PStr ''C''),
             (''respuestas'', PList [PStr ''A'', PStr ''B'', PStr ''C'', PStr ''D'']),
             (''respuesta_correcta'', PStr ''A''), (''explicacion'', PStr [])] ''error''"
proof -
  let ?p = "[(''pregunta'', PStr ''P''), (''codigo'', PStr ''C''),
             (''respuestas'', PList [PStr ''A'', PStr ''B'', PStr ''C'', PStr ''D'']),
             (''respuesta_correcta'', PStr ''A''), (''explicacion'', PStr [])]"
  let ?e = "[(''error'', PStr ''No se pudo extraer el JSON''),
             (''detalle'', PStr ''Expecting value: line 1 column 1 (char 0)''),
             (''texto'', PStr ''hola'')]"
  let ?s = "\<lparr>queue = [?p], worker_at = AtCheck\<rparr>"
  have g: "generar_pregunta json_loads_sample (Return (Some texto_respuestas_str)) = Return ?p"
    by (simp add: generar_defs clean_text_def str_defs sample_defs normalizar_respuestas_def)
  have h: "generar_pregunta json_loads_sample (Return (Some ''hola'')) = Return ?e"
    by (simp add: generar_defs clean_text_def str_defs sample_defs)
  have x: "generar_pregunta json_loads_sample (Raise ''503 UNAVAILABLE'') = Raise ''503 UNAVAILABLE''"
    by (simp add: generar_pregunta_def)
  have l: "length ([] :: pydict list) < CACHE_MIN" by (simp add: CACHE_MIN_def)
  have k: "dict_has ?p ''pregunta'' \<and> dict_has ?p ''codigo''"
    "\<not> (dict_has ?e ''pregunta'' \<and> dict_has ?e ''codigo'')"
    by (simp_all add: dict_has_def)
  have v: "valida ?p" using k by (simp add: valida_def)
  have r: "reachable json_loads_sample ?s" using g v by (rule reachable_one)
  have "precargar_paso (generar_pregunta json_loads_sample (Return (Some texto_respuestas_str))) [] =
        Some (if dict_has ?p ''pregunta'' \<and> dict_has ?p ''codigo'' then [] @ [?p] else [], 1)"
    using precargar_enqueues_question_records
      [of "[]" json_loads_sample "Return (Some texto_respuestas_str)" ?p "[]" ?s] l g
    by blast
  with k have a: "precargar_paso
      (generar_pregunta json_loads_sample (Return (Some texto_respuestas_str))) [] = Some ([?p], 1)"
    by simp
  have "precargar_paso (generar_pregunta json_loads_sample (Return (Some ''hola''))) [] =
        Some (if dict_has ?e ''pregunta'' \<and> dict_has ?e ''codigo'' then [] @ [?e] else [], 1)"
    using precargar_enqueues_question_records
      [of "[]" json_loads_sample "Return (Some ''hola'')" ?e "[]" ?s] l h
    by blast
  with k have b: "precargar_paso (generar_pregunta json_loads_sample (Return (Some ''hola''))) [] =
        Some ([], 1)"
    by simp
  have c: "\<exists>t. precargar_paso (generar_pregunta json_loads_sample (Raise ''503 UNAVAILABLE'')) [] =
          Some ([], t)"
    using precargar_enqueues_question_records
      [of "[]" json_loads_sample "Raise ''503 UNAVAILABLE''" "[]" "''503 UNAVAILABLE''" ?s] x
    by blast
  have d: "\<not> dict_has ?p ''error''"
    using precargar_enqueues_question_records
      [of "[]" json_loads_sample "Return (Some texto_respuestas_str)" ?p "[]" ?s] r
    by simp
  from a b c r d show ?thesis by blast
qed

text \<open>
  The claim as written asks for both prompt and code populated. The check looks for the
  two keys only: the response \<^verbatim>\<open>{}\<close> gives a record with neither prompt nor code, and
  the worker puts it in the queue.
\<close>

theorem precargar_enqueues_null_counterexample:
  "precargar_paso (generar_pregunta json_loads_sample (Return (Some ''{}''))) [] =
     Some ([[(''pregunta'', PNone), (''codigo'', PNone), (''respuestas'', PList []),
             (''respuesta_correcta'', PNone), (''explicacion'', PStr [])]], 1)"
  by (simp add: precargar_paso_def valida_def dict_has_def cache_put_def CACHE_MIN_def
      CACHE_SIZE_def generar_defs clean_text_def str_defs sample_defs normalizar_respuestas_def)

lemma generar_pregunta_origin:
  assumes "generar_pregunta loads cli = Return d" "valida d"
  shows "\<exists>raw kv. cli = Return (Some raw) \<and> loads (clean_text raw) = Return (PDict kv)
           \<and> construir_pregunta (PDict kv) = Return d"
proof (cases cli)
  case (Raise e)
  with assms(1) show ?thesis by (simp add: generar_pregunta_def)
next
  case (Return rt)
  note cli = this
  show ?thesis
  proof (cases "try_generar loads rt")
    case (Raise e)
    with cli assms(1) have "d = [(''error'', PStr ''No se pudo extraer el JSON''),
        (''detalle'', PStr e), (''texto'', texto_of rt)]"
      by (simp add: generar_pregunta_def)
    then have "\<not> valida d" by (simp add: valida_def dict_has_def)
    with assms(2) show ?thesis by simp
  next
    case (Return p)
    with cli assms(1) have dp: "d = p" by (simp add: generar_pregunta_def)
    from Return obtain raw v where rv: "rt = Some raw" "loads (clean_text raw) = Return v"
      "construir_pregunta v = Return p"
      by (auto simp: try_generar_def split: option.splits outcome.splits)
    then have "\<exists>kv. v = PDict kv"
      using construir_pregunta_no_dict [of v] by (cases "\<exists>kv. v = PDict kv") auto
    with rv dp cli show ?thesis by auto
  qed
qed

lemma generar_pregunta_generated:
  assumes "generar_pregunta loads cli = Return d" "valida d"
  shows "generated loads d"
proof -
  from generar_pregunta_origin [OF assms]
  obtain raw kv where "loads (clean_text raw) = Return (PDict kv)"
    "construir_pregunta (PDict kv) = Return d" by blast
  then show ?thesis by (rule generated.intros)
qed

lemma step_worker_generated:
  assumes "step loads s s'" "worker_at s' = AtPut p"
  shows "worker_at s = AtPut p \<or> generated loads p"
  using assms
proof cases
  case (generate_valid cli pregunta)
  with assms(2) have "generar_pregunta loads cli = Return p" "valida p" by auto
  then have "generated loads p" by (rule generar_pregunta_generated)
  then show ?thesis ..
qed auto

lemma reachable_generated:
  assumes "reachable loads s"
  shows "(\<forall>d\<in>set (queue s). generated loads d)
         \<and> (\<forall>p. worker_at s = AtPut p \<longrightarrow> generated loads p)"
  using assms
proof induction
  case start
  show ?case by simp
next
  case (next_step s s')
  have w: "\<forall>p. worker_at s' = AtPut p \<longrightarrow> generated loads p"
    using step_worker_generated [OF next_step.hyps(2)] next_step.IH by blast
  have q: "\<forall>d\<in>set (queue s'). generated loads d"
    using step_queue [OF next_step.hyps(2)] next_step.IH by (auto simp: set_ConsD)
  from w q show ?case by blast
qed

text \<open>
  C10, as the code has it. Every record in a reachable queue, and so every record a
  consumer takes from it, is what the generator returned for some response text \<open>raw\<close>
  that \<^verbatim>\<open>json.loads\<close> decoded to a JSON object \<open>kv\<close>. It is the dict with exactly the five
  keys \<open>pregunta\<close>, \<open>codigo\<close>, \<open>respuestas\<close>, \<open>respuesta_correcta\<close> and \<open>explicacion\<close>,
  in this order, read from \<open>kv\<close>. Its \<open>respuestas\<close> is a list. Its \<open>explicacion\<close> is the
  empty text when \<open>kv\<close> has no \<open>Explicacion\<close> and the value \<open>kv\<close> gives there otherwise,
  so that it is \<open>None\<close> only when the model gave \<^verbatim>\<open>null\<close>. Each of \<open>pregunta\<close>, \<open>codigo\<close>
  and \<open>respuesta_correcta\<close> is the value \<open>kv\<close> gives for its key, and \<open>None\<close> when the key
  is missing.
\<close>

theorem cached_record_shape:
  assumes "reachable loads s" and "d \<in> set (queue s)"
  shows "(\<exists>raw kv.
            loads (clean_text raw) = Return (PDict kv)
            \<and> generar_pregunta loads (Return (Some raw)) = Return d
            \<and> d = [(''pregunta'', dict_get kv ''Pregunta'' PNone),
                    (''codigo'', dict_get kv ''Codigo'' PNone),
                    (''respuestas'', normalizar_respuestas (dict_get kv ''Respuestas'' PNone)),
                    (''respuesta_correcta'', dict_get kv ''Respuesta correcta'' PNone),
                    (''explicacion'', dict_get kv ''Explicacion'' (PStr []))]
            \<and> (map_of kv ''Explicacion'' = None \<longrightarrow> map_of d ''explicacion'' = Some (PStr []))
            \<and> (\<forall>v. map_of kv ''Explicacion'' = Some v \<longrightarrow> map_of d ''explicacion'' = Some v)
            \<and> (map_of d ''explicacion'' = Some PNone \<longrightarrow> map_of kv ''Explicacion'' = Some PNone)
            \<and> (map_of kv ''Pregunta'' = None \<longrightarrow> map_of d ''pregunta'' = Some PNone)
            \<and> (map_of kv ''Codigo'' = None \<longrightarrow> map_of d ''codigo'' = Some PNone)
            \<and> (map_of kv ''Respuesta correcta'' = None \<longrightarrow>
                  map_of d ''respuesta_correcta'' = Some PNone))
         \<and> map fst d = [''pregunta'', ''codigo'', ''respuestas'', ''respuesta_correcta'', ''explicacion'']
         \<and> (\<exists>xs. map_of d ''respuestas'' = Some (PList xs))
         \<and> (\<forall>rest. queue s = d # rest \<longrightarrow>
                obtener_pregunta_cache gen (queue s) = (Return d, rest))"
proof -
  from reachable_generated [OF assms(1)] assms(2) have "generated loads d" by blast
  then obtain raw kv where l: "loads (clean_text raw) = Return (PDict kv)"
    and kv: "construir_pregunta (PDict kv) = Return d" by cases
  have gp: "generar_pregunta loads (Return (Some raw)) = Return d"
    using l kv by (simp add: generar_pregunta_def try_generar_def)
  obtain xs where xs: "normalizar_respuestas (dict_get kv ''Respuestas'' PNone) = PList xs"
    using normalizar_respuestas_list by blast
  have d: "d = [(''pregunta'', dict_get kv ''Pregunta'' PNone),
                (''codigo'', dict_get kv ''Codigo'' PNone),
                (''respuestas'', normalizar_respuestas (dict_get kv ''Respuestas'' PNone)),
                (''respuesta_correcta'', dict_get kv ''Respuesta correcta'' PNone),
                (''explicacion'', dict_get kv ''Explicacion'' (PStr []))]"
    using kv by (simp add: construir_pregunta_def)
  have k: "map fst d = [''pregunta'', ''codigo'', ''respuestas'', ''respuesta_correcta'', ''explicacion'']"
    by (subst d) simp
  have r: "\<exists>xs. map_of d ''respuestas'' = Some (PList xs)"
    by (subst d) (simp add: xs)
  have f: "map_of d ''pregunta'' = Some (dict_get kv ''Pregunta'' PNone)"
    "map_of d ''codigo'' = Some (dict_get kv ''Codigo'' PNone)"
    "map_of d ''respuesta_correcta'' = Some (dict_get kv ''Respuesta correcta'' PNone)"
    "map_of d ''explicacion'' = Some (dict_get kv ''Explicacion'' (PStr []))"
    by (subst d, simp)+
  have e1: "map_of kv ''Explicacion'' = None \<longrightarrow> map_of d ''explicacion'' = Some (PStr [])"
    unfolding f by (simp add: dict_get_def)
  have e2: "\<forall>v. map_of kv ''Explicacion'' = Some v \<longrightarrow> map_of d ''explicacion'' = Some v"
    unfolding f by (simp add: dict_get_def)
  have e3: "map_of d ''explicacion'' = Some PNone \<longrightarrow> map_of kv ''Explicacion'' = Some PNone"
    unfolding f by (simp add: dict_get_def split: option.splits)
  have n: "map_of kv ''Pregunta'' = None \<longrightarrow> map_of d ''pregunta'' = Some PNone"
    "map_of kv ''Codigo'' = None \<longrightarrow> map_of d ''codigo'' = Some PNone"
    "map_of kv ''Respuesta correcta'' = None \<longrightarrow> map_of d ''respuesta_correcta'' = Some PNone"
    unfolding f by (simp_all add: dict_get_def)
  have g: "\<forall>rest. queue s = d # rest \<longrightarrow>
                obtener_pregunta_cache gen (queue s) = (Return d, rest)"
    by (simp add: obtener_pregunta_cache_def cache_get_def)
  have ex: "\<exists>raw kv.
            loads (clean_text raw) = Return (PDict kv)
            \<and> generar_pregunta loads (Return (Some raw)) = Return d
            \<and> d = [(''pregunta'', dict_get kv ''Pregunta'' PNone),
                    (''codigo'', dict_get kv ''Codigo'' PNone),
                    (''respuestas'', normalizar_respuestas (dict_get kv ''Respuestas'' PNone)),
                    (''respuesta_correcta'', dict_get kv ''Respuesta correcta'' PNone),
                    (''explicacion'', dict_get kv ''Explicacion'' (PStr []))]
            \<and> (map_of kv ''Explicacion'' = None \<longrightarrow> map_of d ''explicacion'' = Some (PStr []))
            \<and> (\<forall>v. map_of kv ''Explicacion'' = Some v \<longrightarrow> map_of d ''explicacion'' = Some v)
            \<and> (map_of d ''explicacion'' = Some PNone \<longrightarrow> map_of kv ''Explicacion'' = Some PNone)
            \<and> (map_of kv ''Pregunta'' = None \<longrightarrow> map_of d ''pregunta'' = Some PNone)
            \<and> (map_of kv ''Codigo'' = None \<longrightarrow> map_of d ''codigo'' = Some PNone)
            \<and> (map_of kv ''Respuesta correcta'' = None \<longrightarrow>
                  map_of d ''respuesta_correcta'' = Some PNone)"
    by (rule exI [of _ raw], rule exI [of _ kv]) (intro conjI l gp d e1 e2 e3 n)
  show ?thesis by (intro conjI ex k r g)
qed

theorem cached_record_shape_witness:
  "reachable json_loads_sample
     \<lparr>queue = [[(''pregunta'', PStr ''P''), (''codigo'', PStr ''C''),
                 (''respuestas'', PList [PStr ''A'', PStr ''B'', PStr ''C'', PStr ''D'']),
                 (''respuesta_correcta'', PStr ''A''), (''explicacion'', PStr [])]],
      worker_at = AtCheck\<rparr>
   \<and> obtener_pregunta_cache (Raise ''unused'')
        [[(''pregunta'', PStr ''P''), (''codigo'', PStr ''C''),
          (''respuestas'', PList [PStr ''A'', PStr ''B'', PStr ''C'', PStr ''D'']),
          (''respuesta_correcta'', PStr ''A''), (''explicacion'', PStr [])]] =
       (Return [(''pregunta'', PStr ''P''), (''codigo'', PStr ''C''),
                (''respuestas'', PList [PStr ''A'', PStr ''B'', PStr ''C'', PStr ''D'']),
                (''respuesta_correcta'', PStr ''A''), (''explicacion'', PStr [])], [])
   \<and> (\<exists>raw kv. json_loads_sample (clean_text raw) = Return (PDict kv)
         \<and> generar_pregunta json_loads_sample (Return (Some raw)) =
             Return [(''pregunta'', PStr ''P''), (''codigo'', PStr ''C''),
                (''respuestas'', PList [PStr ''A'', PStr ''B'', PStr ''C'', PStr ''D'']),
                (''respuesta_correcta'', PStr ''A''), (''explicacion'', PStr [])]
         \<and> PStr [] = dict_get kv ''Explicacion'' (PStr []))"
proof -
  let ?p = "[(''pregunta'', PStr ''P''), (''codigo'', PStr ''C''),
             (''respuestas'', PList [PStr ''A'', PStr ''B'', PStr ''C'', PStr ''D'']),
             (''respuesta_correcta'', PStr ''A''), (''explicacion'', PStr [])]"
  let ?s = "\<lparr>queue = [?p], worker_at = AtCheck\<rparr>"
  have g: "generar_pregunta json_loads_sample (Return (Some texto_respuestas_str)) = Return ?p"
    by (simp add: generar_defs clean_text_def str_defs sample_defs normalizar_respuestas_def)
  have v: "valida ?p" by (simp add: valida_def dict_has_def)
  have r: "reachable json_loads_sample ?s" using g v by (rule reachable_one)
  have m: "?p \<in> set (queue ?s)" by simp
  note shape = cached_record_shape [OF r m, of "Raise ''unused''"]
  from shape have "\<forall>rest. queue ?s = ?p # rest \<longrightarrow>
          obtener_pregunta_cache (Raise ''unused'') (queue ?s) = (Return ?p, rest)"
    by (elim conjE)
  then have a: "obtener_pregunta_cache (Raise ''unused'') [?p] = (Return ?p, [])" by simp
  from conjunct1 [OF shape] obtain raw kv where
    c: "json_loads_sample (clean_text raw) = Return (PDict kv)"
    "generar_pregunta json_loads_sample (Return (Some raw)) = Return ?p"
    "?p = [(''pregunta'', dict_get kv ''Pregunta'' PNone),
           (''codigo'', dict_get kv ''Codigo'' PNone),
           (''respuestas'', normalizar_respuestas (dict_get kv ''Respuestas'' PNone)),
           (''respuesta_correcta'', dict_get kv ''Respuesta correcta'' PNone),
           (''explicacion'', dict_get kv ''Explicacion'' (PStr []))]"
    by (elim exE conjE)
  from c(3) have "PStr [] = dict_get kv ''Explicacion'' (PStr [])" by simp
  with c(1,2) have b: "\<exists>raw kv. json_loads_sample (clean_text raw) = Return (PDict kv)
         \<and> generar_pregunta json_loads_sample (Return (Some raw)) = Return ?p
         \<and> PStr [] = dict_get kv ''Explicacion'' (PStr [])"
    by (intro exI conjI)
  show ?thesis by (intro conjI r a b)
qed

text \<open>
  The claim as written says the explanation is never absent. A response whose
  \<open>Explicacion\<close> is \<^verbatim>\<open>null\<close> gives a record whose \<open>explicacion\<close> is \<open>None\<close>; the worker
  puts it in the queue and the next consumer gets it.
\<close>

theorem cached_record_null_counterexample:
  "reachable json_loads_sample
     \<lparr>queue = [[(''pregunta'', PStr ''P''), (''codigo'', PStr ''C''),
                 (''respuestas'', PList []), (''respuesta_correcta'', PStr ''A''),
                 (''explicacion'', PNone)]],
      worker_at = AtCheck\<rparr>
   \<and> map_of [(''pregunta'', PStr ''P''), (''codigo'', PStr ''C''),
              (''respuestas'', PList []), (''respuesta_correcta'', PStr ''A''),
              (''explicacion'', PNone)] ''explicacion'' = Some PNone
   \<and> obtener_pregunta_cache (Raise ''unused'')
        [[(''pregunta'', PStr ''P''), (''codigo'', PStr ''C''),
          (''respuestas'', PList []), (''respuesta_correcta'', PStr ''A''),
          (''explicacion'', PNone)]] =
       (Return [(''pregunta'', PStr ''P''), (''codigo'', PStr ''C''),
                (''respuestas'', PList []), (''respuesta_correcta'', PStr ''A''),
                (''explicacion'', PNone)], [])"
proof -
  let ?p = "[(''pregunta'', PStr ''P''), (''codigo'', PStr ''C''),
             (''respuestas'', PList []), (''respuesta_correcta'', PStr ''A''),
             (''explicacion'', PNone)]"
  have g: "generar_pregunta json_loads_sample (Return (Some texto_explicacion_null)) = Return ?p"
    by (simp add: generar_defs clean_text_def str_defs sample_defs normalizar_respuestas_def)
  have v: "valida ?p" by (simp add: valida_def dict_has_def)
  have r: "reachable json_loads_sample \<lparr>queue = [?p], worker_at = AtCheck\<rparr>"
    using g v by (rule reachable_one)
  have o: "obtener_pregunta_cache (Raise ''unused'') [?p] = (Return ?p, [])"
    by (simp add: obtener_pregunta_cache_def cache_get_def)
  from r o show ?thesis by simp
qed

end
